theory Spec2Isabelle
  imports Complex_Main "HOL-Library.Sublist"
begin

section \<open>JSON values and Python dictionaries\<close>

text \<open>
  The report fields are Django \<open>JSONField\<close>s and the stage collaborators exchange Python
  dictionaries. A dictionary is an association list: Python dictionaries keep insertion
  order, a new key goes to the end and an existing key is overwritten in place.
  A float is kept as the rational it denotes.
\<close>

datatype json =
    JNull
  | JBool bool
  | JInt int
  | JFloat rat
  | JStr string
  | JList "json list"
  | JDict "(string \<times> json) list"

type_synonym jdict = "(string \<times> json) list"

text \<open>\<open>d[k] = v\<close>\<close>

fun dict_set :: "'k \<Rightarrow> 'v \<Rightarrow> ('k \<times> 'v) list \<Rightarrow> ('k \<times> 'v) list" where
  "dict_set k v [] = [(k, v)]"
| "dict_set k v (p # ps) = (if fst p = k then (k, v) # ps else p # dict_set k v ps)"

text \<open>\<open>d.get(k)\<close>, \<open>k in d\<close>, \<open>d.keys()\<close>\<close>

definition dict_get :: "('k \<times> 'v) list \<Rightarrow> 'k \<Rightarrow> 'v option" where
  "dict_get d k = map_of d k"

definition dict_has :: "('k \<times> 'v) list \<Rightarrow> 'k \<Rightarrow> bool" where
  "dict_has d k = (dict_get d k \<noteq> None)"

definition dict_keys :: "('k \<times> 'v) list \<Rightarrow> 'k list" where
  "dict_keys d = map fst d"

text \<open>\<open>d.get(k, default)\<close>\<close>

definition dict_get_default :: "('k \<times> 'v) list \<Rightarrow> 'k \<Rightarrow> 'v \<Rightarrow> 'v" where
  "dict_get_default d k dflt = (case dict_get d k of None \<Rightarrow> dflt | Some v \<Rightarrow> v)"

text \<open>Python truth value of a JSON value.\<close>

fun truthy :: "json \<Rightarrow> bool" where
  "truthy JNull = False"
| "truthy (JBool b) = b"
| "truthy (JInt i) = (i \<noteq> 0)"
| "truthy (JFloat q) = (q \<noteq> 0)"
| "truthy (JStr s) = (s \<noteq> [])"
| "truthy (JList xs) = (xs \<noteq> [])"
| "truthy (JDict d) = (d \<noteq> [])"

section \<open>The models of \<open>reports/models.py\<close>\<close>

text \<open>
  Times are microseconds since the epoch, the resolution of \<open>datetime\<close>.
  \<open>int(timedelta.total_seconds())\<close> truncates towards zero.
\<close>

definition total_seconds_int :: "int \<Rightarrow> int" where
  "total_seconds_int d = (if 0 \<le> d then d div 1000000 else - ((- d) div 1000000))"

record Website =
  url :: string
  domain :: string
  company_name :: string

datatype status = Pending | Processing | Completed | Failed | Cancelled

text \<open>One entry of \<open>processing_steps\<close>; the entries start without \<open>updated_at\<close>.\<close>

record pstep =
  step :: string
  step_status :: string
  progress :: int
  message :: string
  updated_at :: "string option"

type_synonym rid = string

record Report =
  website_id :: nat
  status :: status
  requester_email :: string
  executive_summary :: json
  seo_data :: json
  social_data :: json
  reputation_data :: json
  competitor_data :: json
  trust_score :: json
  growth_opportunities :: json
  technical_analysis :: json
  created_at :: int
  completed_at :: "int option"
  processing_started_at :: "int option"
  processing_steps :: "pstep list"
  error_messages :: "string list"
  processing_time_seconds :: "int option"

text \<open>
  \<open>Report.save\<close> up to the call of \<open>super().save\<close>: the two field updates. A
  \<open>datetime\<close> is always true in Python, so \<open>not self.completed_at\<close> means the field is
  null.
\<close>

definition pre_save :: "int \<Rightarrow> Report \<Rightarrow> Report" where
  "pre_save now r =
    (let r1 = (if status r = Completed \<and> completed_at r = None
               then r\<lparr>completed_at := Some now\<rparr> else r)
     in case (completed_at r1, processing_started_at r1) of
          (Some c, Some s) \<Rightarrow> r1\<lparr>processing_time_seconds := Some (total_seconds_int (c - s))\<rparr>
        | _ \<Rightarrow> r1)"

text \<open>
  \<open>Report.progress_percentage\<close>. The source divides in floating point; the quotient is taken
  exactly here.
\<close>

definition progress_percentage :: "Report \<Rightarrow> rat" where
  "progress_percentage r =
    (if processing_steps r = [] then 0
     else let completed_steps = length (filter (\<lambda>s. step_status s = ''completed'') (processing_steps r));
              total_steps = length (processing_steps r)
          in if total_steps = 0 then 0
             else (of_nat completed_steps / of_nat total_steps) * 100)"

section \<open>The environment of a task run\<close>

text \<open>
  Everything a run reads from outside the record store is a field of the environment: the
  clock (one reading per call site of \<open>timezone.now()\<close>, named by a label), the text
  functions of the Python runtime that the code applies to values of unknown shape, the
  channel layer, the exception (if any) that each call to the store, the channel layer or the
  broker raises, named by the label of its call site, and the eight stage collaborators. A
  collaborator returns \<open>Inl\<close> of \<open>str(e)\<close> when it raises \<open>e\<close> and \<open>Inr\<close> of its result
  otherwise; its result type is the one the source annotates.
\<close>

record env =
  clock :: "string \<Rightarrow> int"
  isoformat :: "int \<Rightarrow> string"
  str_of :: "json \<Rightarrow> string"
  type_error :: "json \<Rightarrow> string"
  round1 :: "rat \<Rightarrow> json"
  netloc :: "string \<Rightarrow> string"
  channel_layer :: bool
  fault :: "string \<Rightarrow> string option"
  analyze_website :: "string \<Rightarrow> string + jdict"
  collect_seo_data :: "string \<Rightarrow> json \<Rightarrow> string + jdict"
  collect_social_data :: "string \<Rightarrow> json \<Rightarrow> string + jdict"
  collect_reputation_data :: "string \<Rightarrow> json \<Rightarrow> string + jdict"
  collect_competitor_data :: "string \<Rightarrow> string list \<Rightarrow> string + jdict"
  calculate_trust_score :: "jdict \<Rightarrow> string + jdict"
  generate_recommendations :: "jdict \<Rightarrow> string + json list"
  generate_summary :: "jdict \<Rightarrow> string + jdict"

text \<open>
  The record store: the two tables as rows keyed by primary key, the queue of the jobs
  handed to the broker with \<open>.delay\<close>, and the trace of the collaborator calls made.
  A row that is not there is \<open>DoesNotExist\<close>; a query or a write of the task can also be
  refused with the exception that \<open>fault\<close> gives for its call site.
\<close>

datatype job = Generate rid | Notify string rid

record world =
  reports :: "(rid \<times> Report) list"
  websites :: "(nat \<times> Website) list"
  queue :: "job list"
  calls :: "string list"

text \<open>
  The local state of \<open>generate_marketing_report\<close>: the \<open>report\<close> object, its cached
  \<open>report.website\<close>, the \<open>collected_data\<close> dictionary, and the store.
\<close>

record rstate =
  report_id :: rid
  report :: Report
  website :: Website
  collected_data :: jdict
  db :: world

text \<open>\<open>report.save()\<close> when the store accepts the write: the object is updated and its
  row overwritten.\<close>

definition save :: "int \<Rightarrow> rstate \<Rightarrow> rstate" where
  "save now st =
    (let r = pre_save now (report st)
     in st\<lparr>report := r, db := (db st)\<lparr>reports := dict_set (report_id st) r (reports (db st))\<rparr>\<rparr>)"

text \<open>
  \<open>report.save()\<close> at a call site: \<open>Report.save\<close> has updated the object before the
  row is written, so a refused write leaves the object updated and the store as it was, and
  raises.
\<close>

definition try_save :: "env \<Rightarrow> string \<Rightarrow> rstate \<Rightarrow> string option \<times> rstate" where
  "try_save e site st =
    (case fault e site of
       None \<Rightarrow> (None, save (clock e site) st)
     | Some exc \<Rightarrow> (Some exc, st\<lparr>report := pre_save (clock e site) (report st)\<rparr>))"

text \<open>\<open>Website.save\<close>: an empty domain is derived from the url, then the row is written,
  unless the store refuses.\<close>

definition website_save :: "env \<Rightarrow> rstate \<Rightarrow> string option \<times> rstate" where
  "website_save e st =
    (let w = website st;
         w1 = (if domain w = [] \<and> url w \<noteq> [] then w\<lparr>domain := netloc e (url w)\<rparr> else w)
     in case fault e ''website.save'' of
          None \<Rightarrow>
            (None, st\<lparr>website := w1,
                      db := (db st)\<lparr>websites := dict_set (website_id (report st)) w1 (websites (db st))\<rparr>\<rparr>)
        | Some exc \<Rightarrow> (Some exc, st\<lparr>website := w1\<rparr>))"

text \<open>The loop of \<open>update_processing_step\<close>: the first entry of that name, then \<open>break\<close>.
  The function catches the exception of its own save and only logs it.\<close>

fun update_step :: "string \<Rightarrow> (pstep \<Rightarrow> pstep) \<Rightarrow> pstep list \<Rightarrow> pstep list" where
  "update_step n f [] = []"
| "update_step n f (s # ss) = (if step s = n then f s # ss else s # update_step n f ss)"

definition update_processing_step ::
  "env \<Rightarrow> rstate \<Rightarrow> string \<Rightarrow> string \<Rightarrow> int \<Rightarrow> string \<Rightarrow> rstate" where
  "update_processing_step e st step_name stat prog msg =
    snd (try_save e (''save:'' @ step_name)
      (st\<lparr>report := (report st)\<lparr>processing_steps :=
          update_step step_name
            (\<lambda>s. s\<lparr>step_status := stat, progress := prog, message := msg,
                   updated_at := Some (isoformat e (clock e (''updated_at:'' @ step_name)))\<rparr>)
            (processing_steps (report st))\<rparr>\<rparr>))"

text \<open>A collaborator call leaves its name in the trace.\<close>

definition invoke :: "string \<Rightarrow> rstate \<Rightarrow> rstate" where
  "invoke name st = st\<lparr>db := (db st)\<lparr>calls := calls (db st) @ [name]\<rparr>\<rparr>"

subsection \<open>Python operations that can raise\<close>

text \<open>\<open>str(KeyError(k))\<close> is the key in single quotes.\<close>

definition key_error :: "string \<Rightarrow> string" where
  "key_error k = CHR 0x27 # k @ [CHR 0x27]"

text \<open>A method of \<open>dict\<close> called on a value: anything but a dictionary raises.\<close>

definition as_dict :: "env \<Rightarrow> json \<Rightarrow> string + jdict" where
  "as_dict e v = (case v of JDict d \<Rightarrow> Inr d | _ \<Rightarrow> Inl (type_error e v))"

text \<open>\<open>k in v\<close> for a string \<open>k\<close>: keys of a dictionary, elements of a list, substrings
  of a string; other values are not iterable.\<close>

definition json_contains :: "env \<Rightarrow> string \<Rightarrow> json \<Rightarrow> string + bool" where
  "json_contains e k v =
    (case v of
       JDict d \<Rightarrow> Inr (dict_has d k)
     | JList xs \<Rightarrow> Inr (JStr k \<in> set xs)
     | JStr s \<Rightarrow> Inr (sublist k s)
     | _ \<Rightarrow> Inl (type_error e v))"

text \<open>\<open>str(v)\<close>: a string is itself.\<close>

definition py_str :: "env \<Rightarrow> json \<Rightarrow> string" where
  "py_str e v = (case v of JStr s \<Rightarrow> s | _ \<Rightarrow> str_of e v)"

text \<open>\<open>collected_data['website_data'].get('company_name', '')\<close>\<close>

definition company_name_arg :: "env \<Rightarrow> jdict \<Rightarrow> string + json" where
  "company_name_arg e cd =
    (case dict_get cd ''website_data'' of
       None \<Rightarrow> Inl (key_error ''website_data'')
     | Some wd \<Rightarrow>
        (case as_dict e wd of
           Inl err \<Rightarrow> Inl err
         | Inr d \<Rightarrow> Inr (dict_get_default d ''company_name'' (JStr ''''))))"

text \<open>The keyword extraction of the competitor stage: the first five keys of
  \<open>seo_data['keyword_density']['top_keywords']\<close>.\<close>

definition extract_keywords :: "env \<Rightarrow> jdict \<Rightarrow> string + string list" where
  "extract_keywords e cd =
    (case dict_get cd ''seo_data'' of
       None \<Rightarrow> Inr []
     | Some seo \<Rightarrow>
        (case json_contains e ''keyword_density'' seo of
           Inl err \<Rightarrow> Inl err
         | Inr False \<Rightarrow> Inr []
         | Inr True \<Rightarrow>
            (case as_dict e seo of
               Inl err \<Rightarrow> Inl err
             | Inr seo_d \<Rightarrow>
                (case dict_get seo_d ''keyword_density'' of
                   None \<Rightarrow> Inl (key_error ''keyword_density'')
                 | Some kd \<Rightarrow>
                    (case as_dict e kd of
                       Inl err \<Rightarrow> Inl err
                     | Inr kd_d \<Rightarrow>
                        (case as_dict e (dict_get_default kd_d ''top_keywords'' (JDict [])) of
                           Inl err \<Rightarrow> Inl err
                         | Inr keyword_data \<Rightarrow> Inr (take 5 (dict_keys keyword_data))))))))"

text \<open>\<open>collected_data.get('trust_score', {}).get('overall', default)\<close>\<close>

definition overall_of :: "env \<Rightarrow> jdict \<Rightarrow> json \<Rightarrow> string + json" where
  "overall_of e cd dflt =
    (case dict_get cd ''trust_score'' of
       None \<Rightarrow> Inr dflt
     | Some t \<Rightarrow>
        (case as_dict e t of
           Inl err \<Rightarrow> Inl err
         | Inr d \<Rightarrow> Inr (dict_get_default d ''overall'' dflt)))"

section \<open>The stages of \<open>generate_marketing_report\<close>\<close>

text \<open>
  Each of the first six stages is a \<open>try\<close> block followed by \<open>except Exception as e\<close>.
  The \<open>try\<close> part returns the state it reached and, when it raised, \<open>str(e)\<close>. The
  handler marks the step failed with the message \<open>label @ '' failed: '' @ str(e)\<close> and
  then stores the fallback. \<open>send_progress\<close> and the logger calls change neither the
  record nor \<open>collected_data\<close> and swallow their own exceptions; they are left out.
\<close>

definition run_stage ::
  "env \<Rightarrow> string \<Rightarrow> string \<Rightarrow> (rstate \<Rightarrow> string option \<times> rstate)
    \<Rightarrow> (string \<Rightarrow> rstate \<Rightarrow> rstate) \<Rightarrow> rstate \<Rightarrow> rstate" where
  "run_stage e step_name label try_part fallback st =
    (case try_part st of
       (None, st1) \<Rightarrow> st1
     | (Some err, st1) \<Rightarrow>
         fallback err (update_processing_step e st1 step_name ''failed'' 0 (label @ '' failed: '' @ err)))"

subsection \<open>Step 1: website analysis\<close>

definition website_fallback :: "Website \<Rightarrow> string \<Rightarrow> json" where
  "website_fallback w err =
    JDict [(''url'', JStr (url w)), (''domain'', JStr (domain w)), (''error'', JStr err),
           (''has_ssl'', JBool (prefix ''https://'' (url w))),
           (''title'', JStr (''Analysis for '' @ domain w)), (''word_count'', JInt 0)]"

definition website_try :: "env \<Rightarrow> rstate \<Rightarrow> string option \<times> rstate" where
  "website_try e st0 =
    (let st = invoke ''analyze_website'' st0
     in case analyze_website e (url (website st)) of
          Inl err \<Rightarrow> (Some err, st)
        | Inr website_data \<Rightarrow>
           (case dict_get website_data ''error'' of
              Some v \<Rightarrow> (Some (''Website analysis failed: '' @ py_str e v), st)
            | None \<Rightarrow>
               (let st1 = st\<lparr>collected_data :=
                              dict_set ''website_data'' (JDict website_data) (collected_data st)\<rparr>;
                    name = dict_get_default website_data ''company_name'' JNull
                in if truthy name \<and> company_name (website st1) = []
                   then (case website_save e
                                 (st1\<lparr>website := (website st1)\<lparr>company_name := py_str e name\<rparr>\<rparr>) of
                           (Some exc, st2) \<Rightarrow> (Some exc, st2)
                         | (None, st2) \<Rightarrow>
                            (None, update_processing_step e st2 ''website_analysis'' ''completed'' 100
                                     ''Website analysis completed successfully''))
                   else (None, update_processing_step e st1 ''website_analysis'' ''completed'' 100
                                 ''Website analysis completed successfully''))))"

definition stage_website :: "env \<Rightarrow> rstate \<Rightarrow> rstate" where
  "stage_website e =
    run_stage e ''website_analysis'' ''Website analysis'' (website_try e)
      (\<lambda>err st. st\<lparr>collected_data :=
          dict_set ''website_data'' (website_fallback (website st) err) (collected_data st)\<rparr>)"

subsection \<open>Step 2: SEO analysis\<close>

definition seo_fallback :: "Website \<Rightarrow> string \<Rightarrow> json" where
  "seo_fallback w err =
    JDict [(''url'', JStr (url w)), (''error'', JStr err),
           (''page_speed'', JDict [(''performance_score'', JInt 0), (''seo_score'', JInt 0)]),
           (''mobile_friendly'', JDict [(''mobile_friendly'', JBool False)])]"

definition seo_try :: "env \<Rightarrow> rstate \<Rightarrow> string option \<times> rstate" where
  "seo_try e st0 =
    (case dict_get (collected_data st0) ''website_data'' of
       None \<Rightarrow> (Some (key_error ''website_data''), st0)
     | Some wd \<Rightarrow>
        (let st = invoke ''collect_seo_data'' st0
         in case collect_seo_data e (url (website st)) wd of
              Inl err \<Rightarrow> (Some err, st)
            | Inr seo \<Rightarrow>
               (let st1 = st\<lparr>collected_data := dict_set ''seo_data'' (JDict seo) (collected_data st),
                             report := (report st)\<lparr>seo_data := JDict seo\<rparr>\<rparr>
                in (None, update_processing_step e st1 ''seo_analysis'' ''completed'' 100
                            ''SEO analysis completed successfully''))))"

definition stage_seo :: "env \<Rightarrow> rstate \<Rightarrow> rstate" where
  "stage_seo e =
    run_stage e ''seo_analysis'' ''SEO analysis'' (seo_try e)
      (\<lambda>err st. st\<lparr>collected_data :=
          dict_set ''seo_data'' (seo_fallback (website st) err) (collected_data st)\<rparr>)"

subsection \<open>Step 3: social media analysis\<close>

definition social_fallback :: "Website \<Rightarrow> string \<Rightarrow> json" where
  "social_fallback w err =
    JDict [(''domain'', JStr (domain w)), (''error'', JStr err), (''platforms'', JDict [])]"

definition social_try :: "env \<Rightarrow> rstate \<Rightarrow> string option \<times> rstate" where
  "social_try e st0 =
    (case company_name_arg e (collected_data st0) of
       Inl err \<Rightarrow> (Some err, st0)
     | Inr name \<Rightarrow>
        (let st = invoke ''collect_social_data'' st0
         in case collect_social_data e (domain (website st)) name of
              Inl err \<Rightarrow> (Some err, st)
            | Inr social \<Rightarrow>
               (let st1 = st\<lparr>collected_data := dict_set ''social_data'' (JDict social) (collected_data st),
                             report := (report st)\<lparr>social_data := JDict social\<rparr>\<rparr>
                in (None, update_processing_step e st1 ''social_analysis'' ''completed'' 100
                            ''Social media analysis completed''))))"

definition stage_social :: "env \<Rightarrow> rstate \<Rightarrow> rstate" where
  "stage_social e =
    run_stage e ''social_analysis'' ''Social media analysis'' (social_try e)
      (\<lambda>err st. st\<lparr>collected_data :=
          dict_set ''social_data'' (social_fallback (website st) err) (collected_data st)\<rparr>)"

subsection \<open>Step 4: reputation analysis\<close>

definition reputation_fallback :: "Website \<Rightarrow> string \<Rightarrow> json" where
  "reputation_fallback w err =
    JDict [(''domain'', JStr (domain w)), (''error'', JStr err),
           (''overall_rating'', JInt 0), (''reviews'', JList [])]"

definition reputation_try :: "env \<Rightarrow> rstate \<Rightarrow> string option \<times> rstate" where
  "reputation_try e st0 =
    (case company_name_arg e (collected_data st0) of
       Inl err \<Rightarrow> (Some err, st0)
     | Inr name \<Rightarrow>
        (let st = invoke ''collect_reputation_data'' st0
         in case collect_reputation_data e (domain (website st)) name of
              Inl err \<Rightarrow> (Some err, st)
            | Inr reputation \<Rightarrow>
               (let st1 = st\<lparr>collected_data :=
                               dict_set ''reputation_data'' (JDict reputation) (collected_data st),
                             report := (report st)\<lparr>reputation_data := JDict reputation\<rparr>\<rparr>
                in (None, update_processing_step e st1 ''reputation_analysis'' ''completed'' 100
                            ''Reputation analysis completed''))))"

definition stage_reputation :: "env \<Rightarrow> rstate \<Rightarrow> rstate" where
  "stage_reputation e =
    run_stage e ''reputation_analysis'' ''Reputation analysis'' (reputation_try e)
      (\<lambda>err st. st\<lparr>collected_data :=
          dict_set ''reputation_data'' (reputation_fallback (website st) err) (collected_data st)\<rparr>)"

subsection \<open>Step 5: competitor analysis\<close>

definition competitor_fallback :: "Website \<Rightarrow> string \<Rightarrow> json" where
  "competitor_fallback w err =
    JDict [(''domain'', JStr (domain w)), (''error'', JStr err),
           (''competitors'', JList []), (''market_position'', JDict [])]"

definition competitor_try :: "env \<Rightarrow> rstate \<Rightarrow> string option \<times> rstate" where
  "competitor_try e st0 =
    (case extract_keywords e (collected_data st0) of
       Inl err \<Rightarrow> (Some err, st0)
     | Inr keywords \<Rightarrow>
        (let st = invoke ''collect_competitor_data'' st0
         in case collect_competitor_data e (domain (website st)) keywords of
              Inl err \<Rightarrow> (Some err, st)
            | Inr competitor \<Rightarrow>
               (let st1 = st\<lparr>collected_data :=
                               dict_set ''competitor_data'' (JDict competitor) (collected_data st),
                             report := (report st)\<lparr>competitor_data := JDict competitor\<rparr>\<rparr>
                in (None, update_processing_step e st1 ''competitor_analysis'' ''completed'' 100
                            ''Competitor analysis completed''))))"

definition stage_competitor :: "env \<Rightarrow> rstate \<Rightarrow> rstate" where
  "stage_competitor e =
    run_stage e ''competitor_analysis'' ''Competitor analysis'' (competitor_try e)
      (\<lambda>err st. st\<lparr>collected_data :=
          dict_set ''competitor_data'' (competitor_fallback (website st) err) (collected_data st)\<rparr>)"

subsection \<open>Step 6: AI analysis\<close>

definition trust_fallback :: "string \<Rightarrow> json" where
  "trust_fallback err =
    JDict [(''overall'', JFloat 5), (''breakdown'', JDict []), (''error'', JStr err)]"

definition ai_try :: "env \<Rightarrow> rstate \<Rightarrow> string option \<times> rstate" where
  "ai_try e st0 =
    (let st = invoke ''calculate_trust_score'' st0
     in case calculate_trust_score e (collected_data st) of
          Inl err \<Rightarrow> (Some err, st)
        | Inr trust \<Rightarrow>
           (let st1 = invoke ''generate_recommendations''
                        (st\<lparr>collected_data := dict_set ''trust_score'' (JDict trust) (collected_data st),
                            report := (report st)\<lparr>trust_score := JDict trust\<rparr>\<rparr>)
            in case generate_recommendations e (collected_data st1) of
                 Inl err \<Rightarrow> (Some err, st1)
               | Inr growth \<Rightarrow>
                  (let st2 = st1\<lparr>collected_data :=
                                   dict_set ''growth_opportunities'' (JList growth) (collected_data st1),
                                 report := (report st1)\<lparr>growth_opportunities := JList growth\<rparr>\<rparr>
                   in (None, update_processing_step e st2 ''ai_analysis'' ''completed'' 100
                               ''AI analysis completed''))))"

definition stage_ai :: "env \<Rightarrow> rstate \<Rightarrow> rstate" where
  "stage_ai e =
    run_stage e ''ai_analysis'' ''AI analysis'' (ai_try e)
      (\<lambda>err st.
         st\<lparr>collected_data :=
               dict_set ''growth_opportunities'' (JList [])
                 (dict_set ''trust_score'' (trust_fallback err) (collected_data st)),
            report := (report st)\<lparr>trust_score := trust_fallback err,
                                  growth_opportunities := JList []\<rparr>\<rparr>)"

subsection \<open>Step 7: report compilation\<close>

text \<open>
  \<open>calculate_data_quality_score\<close>: the share of the sources without an \<open>error\<close> key.
  \<open>round(x, 1)\<close> on a float is the environment's \<open>round1\<close>.
\<close>

definition calculate_data_quality_score :: "env \<Rightarrow> jdict \<Rightarrow> json" where
  "calculate_data_quality_score e cd =
    (let total_sources = length cd
     in if total_sources = 0 then JFloat 0
        else let successful_sources =
                   length (filter (\<lambda>(key, v). case v of JDict d \<Rightarrow> \<not> dict_has d ''error'' | _ \<Rightarrow> True) cd)
             in round1 e ((of_nat successful_sources / of_nat total_sources) * 100))"

definition collection_errors :: "jdict \<Rightarrow> string list" where
  "collection_errors cd =
    map fst (filter (\<lambda>(key, v). case v of JDict d \<Rightarrow> dict_has d ''error'' | _ \<Rightarrow> False) cd)"

definition compilation_try :: "env \<Rightarrow> rstate \<Rightarrow> string option \<times> rstate" where
  "compilation_try e st0 =
    (let st = invoke ''generate_summary'' st0
     in case generate_summary e (collected_data st) of
          Inl err \<Rightarrow> (Some err, st)
        | Inr summary \<Rightarrow>
           (let st1 = st\<lparr>report := (report st)\<lparr>executive_summary := JDict summary\<rparr>\<rparr>
            in case processing_started_at (report st1) of
                 None \<Rightarrow> (Some (type_error e JNull), st1)
               | Some started \<Rightarrow>
                  (let cd = collected_data st1;
                       st2 = st1\<lparr>report := (report st1)\<lparr>technical_analysis :=
                          JDict [(''data_sources_used'', JList (map JStr (dict_keys cd))),
                                 (''analysis_timestamp'', JStr (isoformat e (clock e ''analysis_timestamp''))),
                                 (''processing_duration_seconds'',
                                    JInt (total_seconds_int (clock e ''processing_duration'' - started))),
                                 (''data_quality_score'', calculate_data_quality_score e cd),
                                 (''collection_errors'', JList (map JStr (collection_errors cd)))]\<rparr>\<rparr>
                   in (None, update_processing_step e st2 ''report_compilation'' ''completed'' 100
                               ''Report compilation completed''))))"

text \<open>
  The handler of step 7 reads \<open>trust_score\<close> with \<open>.get\<close>; an exception there is raised
  inside the handler and leaves the stage: the result is then \<open>Inl\<close> of the exception and
  the store at that point.
\<close>

definition stage_compilation :: "env \<Rightarrow> rstate \<Rightarrow> (string \<times> world) + rstate" where
  "stage_compilation e st =
    (case compilation_try e st of
       (None, st1) \<Rightarrow> Inr st1
     | (Some err, st1) \<Rightarrow>
        (let st2 = update_processing_step e st1 ''report_compilation'' ''failed'' 0
                     (''Report compilation failed: '' @ err)
         in case overall_of e (collected_data st2) (JFloat 5) of
              Inl exc \<Rightarrow> Inl (exc, db st2)
            | Inr visibility \<Rightarrow>
               Inr (st2\<lparr>report := (report st2)\<lparr>executive_summary :=
                      JDict [(''summary_text'', JStr (''Report generated for '' @ domain (website st2)
                                                      @ '' with basic analysis.'')),
                             (''organic_traffic_change'', JStr ''+0%''),
                             (''ai_visibility'', visibility),
                             (''avg_rating'', JInt 0),
                             (''error'', JStr err)]\<rparr>\<rparr>)))"

section \<open>The task \<open>generate_marketing_report\<close>\<close>

definition initial_steps :: "pstep list" where
  "initial_steps =
    [\<lparr>step = ''website_analysis'', step_status = ''pending'', progress = 0,
      message = ''Analyzing website structure and content...'', updated_at = None\<rparr>,
     \<lparr>step = ''seo_analysis'', step_status = ''pending'', progress = 0,
      message = ''Collecting SEO performance data...'', updated_at = None\<rparr>,
     \<lparr>step = ''social_analysis'', step_status = ''pending'', progress = 0,
      message = ''Analyzing social media presence...'', updated_at = None\<rparr>,
     \<lparr>step = ''reputation_analysis'', step_status = ''pending'', progress = 0,
      message = ''Checking online reputation and reviews...'', updated_at = None\<rparr>,
     \<lparr>step = ''competitor_analysis'', step_status = ''pending'', progress = 0,
      message = ''Analyzing competitive landscape...'', updated_at = None\<rparr>,
     \<lparr>step = ''ai_analysis'', step_status = ''pending'', progress = 0,
      message = ''Running AI-powered analysis...'', updated_at = None\<rparr>,
     \<lparr>step = ''report_compilation'', step_status = ''pending'', progress = 0,
      message = ''Compiling final report and recommendations...'', updated_at = None\<rparr>]"

text \<open>
  Lines 99 to 129: the status update and its save, the first read of \<open>report.website\<close>
  (a report whose website row is gone raises there), the step list and its save, the empty
  \<open>collected_data\<close>. Neither save is guarded: an exception of the store leaves the block,
  and it comes with the store as it is then.
\<close>

definition begin_processing :: "env \<Rightarrow> rid \<Rightarrow> Report \<Rightarrow> world \<Rightarrow> (string \<times> world) + rstate" where
  "begin_processing e i r w =
    (let r1 = pre_save (clock e ''save:processing'')
                (r\<lparr>status := Processing,
                   processing_started_at := Some (clock e ''processing_started_at''),
                   error_messages := []\<rparr>)
     in case fault e ''save:processing'' of
          Some exc \<Rightarrow> Inl (exc, w)
        | None \<Rightarrow>
           (let w1 = w\<lparr>reports := dict_set i r1 (reports w)\<rparr>
            in case dict_get (websites w1) (website_id r1) of
                 None \<Rightarrow> Inl (''Report has no website.'', w1)
               | Some ws \<Rightarrow>
                  (case try_save e ''save:steps''
                          \<lparr>report_id = i, report = r1\<lparr>processing_steps := initial_steps\<rparr>,
                           website = ws, collected_data = [], db = w1\<rparr> of
                     (Some exc, st) \<Rightarrow> Inl (exc, db st)
                   | (None, st) \<Rightarrow> Inr st)))"

definition run_stages :: "env \<Rightarrow> rstate \<Rightarrow> (string \<times> world) + rstate" where
  "run_stages e st =
    stage_compilation e (stage_ai e (stage_competitor e (stage_reputation e
      (stage_social e (stage_seo e (stage_website e st))))))"

datatype body_result = Not_found | Raised string world | Finished jdict rstate

text \<open>The two \<open>group_send\<close> calls after the final save are outside every inner \<open>try\<close>.\<close>

definition notify :: "env \<Rightarrow> string option" where
  "notify e =
    (if channel_layer e
     then (case fault e ''report_completed'' of
             Some exc \<Rightarrow> Some exc
           | None \<Rightarrow> fault e ''report_status_changed'')
     else None)"

definition result_of :: "env \<Rightarrow> rstate \<Rightarrow> body_result" where
  "result_of e st =
    (case overall_of e (collected_data st) (JInt 0) of
       Inl exc \<Rightarrow> Raised exc (db st)
     | Inr overall \<Rightarrow>
        Finished [(''status'', JStr ''completed''),
                  (''report_id'', JStr (report_id st)),
                  (''processing_time_seconds'',
                     (case processing_time_seconds (report st) of None \<Rightarrow> JNull | Some n \<Rightarrow> JInt n)),
                  (''data_sources_used'', JInt (int (length (collected_data st)))),
                  (''trust_score'', overall)] st)"

text \<open>Lines 377 to 423: the final completion.\<close>

definition complete :: "env \<Rightarrow> rstate \<Rightarrow> body_result" where
  "complete e st =
    (let r1 = (report st)\<lparr>status := Completed, completed_at := Some (clock e ''completed_at'')\<rparr>;
         r2 = (case processing_started_at r1 of
                 None \<Rightarrow> r1
               | Some started \<Rightarrow>
                  r1\<lparr>processing_time_seconds :=
                       Some (total_seconds_int (clock e ''processing_time'' - started))\<rparr>)
     in case try_save e ''save:completed'' (st\<lparr>report := r2\<rparr>) of
          (Some exc, st1) \<Rightarrow> Raised exc (db st1)
        | (None, st1) \<Rightarrow>
           (case notify e of
              Some exc \<Rightarrow> Raised exc (db st1)
            | None \<Rightarrow>
               (if requester_email (report st1) \<noteq> []
                then (case fault e ''send_report_notification'' of
                        Some exc \<Rightarrow> Raised exc (db st1)
                      | None \<Rightarrow>
                         result_of e (st1\<lparr>db := (db st1)\<lparr>queue := queue (db st1)
                            @ [Notify (requester_email (report st1)) (report_id st1)]\<rparr>\<rparr>))
                else result_of e st1)))"

text \<open>The body of the outer \<open>try\<close>. The query for the report is \<open>DoesNotExist\<close> when
  there is no such row; for a row that is there it can still be refused by the store.\<close>

definition try_body :: "env \<Rightarrow> rid \<Rightarrow> world \<Rightarrow> body_result" where
  "try_body e i w =
    (case dict_get (reports w) i of
       None \<Rightarrow> Not_found
     | Some r \<Rightarrow>
        (case fault e ''load'' of
           Some exc \<Rightarrow> Raised exc w
         | None \<Rightarrow>
            (case begin_processing e i r w of
               Inl (exc, w1) \<Rightarrow> Raised exc w1
             | Inr st \<Rightarrow>
                (case run_stages e st of
                   Inl (exc, w1) \<Rightarrow> Raised exc w1
                 | Inr st1 \<Rightarrow> complete e st1))))"

text \<open>
  The handler \<open>except Exception as exc\<close>: the record is read again from the store, marked
  failed and the exception text appended. The handler guards this with a \<open>try\<close> of its
  own: a record that is gone, or a store that refuses the query or the write, is only logged.
\<close>

definition on_exception :: "env \<Rightarrow> rid \<Rightarrow> string \<Rightarrow> world \<Rightarrow> world" where
  "on_exception e i exc w =
    (case fault e ''load:failed'' of
       Some x \<Rightarrow> w
     | None \<Rightarrow>
        (case dict_get (reports w) i of
           None \<Rightarrow> w
         | Some r \<Rightarrow>
            (case fault e ''save:failed'' of
               Some x \<Rightarrow> w
             | None \<Rightarrow>
                w\<lparr>reports := dict_set i
                    (pre_save (clock e ''save:failed'')
                       (r\<lparr>status := Failed, error_messages := error_messages r @ [exc]\<rparr>))
                    (reports w)\<rparr>)))"

definition max_retries :: nat where
  "max_retries = 3"

text \<open>What the task hands back to the worker: a value, or \<open>self.retry(countdown, exc)\<close>.\<close>

datatype task_result = Returned jdict | Retry nat string

definition generate_marketing_report :: "env \<Rightarrow> nat \<Rightarrow> rid \<Rightarrow> world \<Rightarrow> task_result \<times> world" where
  "generate_marketing_report e retries i w =
    (case try_body e i w of
       Not_found \<Rightarrow> (Returned [(''error'', JStr ''Report not found'')], w)
     | Finished res st \<Rightarrow> (Returned res, db st)
     | Raised exc w1 \<Rightarrow>
        (let w2 = on_exception e i exc w1
         in if retries < max_retries
            then (Retry (60 * 2 ^ retries) exc, w2)
            else (Returned [(''error'', JStr (''Report generation failed for '' @ i @ '': '' @ exc)),
                            (''retries_exhausted'', JBool True)], w2)))"

section \<open>The sweep \<open>monitor_report_processing\<close>\<close>

definition thirty_minutes :: int where
  "thirty_minutes = 30 * 60 * 1000000"

definition one_hour :: int where
  "one_hour = 60 * 60 * 1000000"

text \<open>The filter \<open>status='processing', processing_started_at__lt=stuck_threshold\<close>; a null
  start time matches no comparison.\<close>

definition is_stuck :: "int \<Rightarrow> Report \<Rightarrow> bool" where
  "is_stuck stuck_threshold r =
    (status r = Processing \<and>
     (case processing_started_at r of None \<Rightarrow> False | Some s \<Rightarrow> s < stuck_threshold))"

definition is_old_pending :: "int \<Rightarrow> Report \<Rightarrow> bool" where
  "is_old_pending pending_threshold r = (status r = Pending \<and> created_at r < pending_threshold)"

text \<open>The body of the loop over the stuck reports.\<close>

definition mark_stuck :: "env \<Rightarrow> rid \<times> Report \<Rightarrow> world \<Rightarrow> world" where
  "mark_stuck e row w =
    (case row of (i, r) \<Rightarrow>
       w\<lparr>reports := dict_set i
           (pre_save (clock e ''save:stuck'')
              (r\<lparr>status := Failed,
                 error_messages := error_messages r @ [''Report processing timed out after 30 minutes'']\<rparr>))
           (reports w)\<rparr>)"

definition monitor_report_processing :: "env \<Rightarrow> world \<Rightarrow> jdict \<times> world" where
  "monitor_report_processing e w =
    (let stuck_threshold = clock e ''stuck_threshold'' - thirty_minutes;
         stuck_reports = filter (\<lambda>(i, r). is_stuck stuck_threshold r) (reports w);
         w1 = fold (mark_stuck e) stuck_reports w;
         pending_threshold = clock e ''pending_threshold'' - one_hour;
         old_pending = filter (\<lambda>(i, r). is_old_pending pending_threshold r) (reports w1);
         w2 = w1\<lparr>queue := queue w1 @ map (\<lambda>(i, r). Generate i) old_pending\<rparr>
     in ([(''stuck_reports_failed'', JInt (int (length stuck_reports))),
          (''old_pending_restarted'', JInt (int (length old_pending))),
          (''timestamp'', JStr (isoformat e (clock e ''timestamp'')))], w2))"

section \<open>The output keys and some concrete runs\<close>

text \<open>The keys under which the stages store their results in \<open>collected_data\<close>.\<close>

definition output_keys :: "string list" where
  "output_keys =
    [''website_data'', ''seo_data'', ''social_data'', ''reputation_data'', ''competitor_data'',
     ''trust_score'', ''growth_opportunities'']"

text \<open>The entry of a step in \<open>processing_steps\<close>.\<close>

definition step_entry :: "string \<Rightarrow> Report \<Rightarrow> pstep option" where
  "step_entry n r = find (\<lambda>s. step s = n) (processing_steps r)"

text \<open>A website, a freshly created report with the defaults of the model, and a store
  holding both.\<close>

definition example_website :: Website where
  "example_website =
    \<lparr>url = ''https://example.com'', domain = ''example.com'', company_name = ''''\<rparr>"

definition blank_report :: Report where
  "blank_report =
    \<lparr>website_id = 1, status = Pending, requester_email = ''a@example.com'',
     executive_summary = JDict [], seo_data = JDict [], social_data = JDict [],
     reputation_data = JDict [], competitor_data = JDict [], trust_score = JDict [],
     growth_opportunities = JList [], technical_analysis = JDict [],
     created_at = 0, completed_at = None, processing_started_at = None,
     processing_steps = [], error_messages = [], processing_time_seconds = None\<rparr>"

definition example_world :: world where
  "example_world =
    \<lparr>reports = [(''r1'', blank_report)], websites = [(1, example_website)],
     queue = [], calls = []\<rparr>"

text \<open>An environment in which every collaborator answers, at time 5000 s.\<close>

definition example_env :: env where
  "example_env =
    \<lparr>clock = (\<lambda>l. 5000000000), isoformat = (\<lambda>t. ''1970-01-01T01:23:20+00:00''),
     str_of = (\<lambda>v. ''?''), type_error = (\<lambda>v. ''TypeError''), round1 = JFloat,
     netloc = (\<lambda>u. u), channel_layer = True, fault = (\<lambda>l. None),
     analyze_website = (\<lambda>u. Inr [(''url'', JStr u), (''company_name'', JStr ''Example'')]),
     collect_seo_data = (\<lambda>u wd. Inr [(''url'', JStr u)]),
     collect_social_data = (\<lambda>d n. Inr [(''domain'', JStr d)]),
     collect_reputation_data = (\<lambda>d n. Inr [(''domain'', JStr d)]),
     collect_competitor_data = (\<lambda>d ks. Inr [(''domain'', JStr d)]),
     calculate_trust_score = (\<lambda>cd. Inr [(''overall'', JFloat 8)]),
     generate_recommendations = (\<lambda>cd. Inr []),
     generate_summary = (\<lambda>cd. Inr [(''summary_text'', JStr ''ok'')])\<rparr>"

text \<open>The same with the social collector raising, with every collaborator raising, and
  with the channel layer refusing the completion message.\<close>

definition social_down_env :: env where
  "social_down_env = example_env\<lparr>collect_social_data := (\<lambda>d n. Inl ''timeout'')\<rparr>"

definition all_down_env :: env where
  "all_down_env =
    example_env\<lparr>analyze_website := (\<lambda>u. Inl ''down''),
                collect_seo_data := (\<lambda>u wd. Inl ''down''),
                collect_social_data := (\<lambda>d n. Inl ''down''),
                collect_reputation_data := (\<lambda>d n. Inl ''down''),
                collect_competitor_data := (\<lambda>d ks. Inl ''down''),
                calculate_trust_score := (\<lambda>cd. Inl ''down''),
                generate_recommendations := (\<lambda>cd. Inl ''down''),
                generate_summary := (\<lambda>cd. Inl ''down'')\<rparr>"

definition channel_down_env :: env where
  "channel_down_env =
    example_env\<lparr>fault := (\<lambda>l. if l = ''report_completed'' then Some ''channel down'' else None)\<rparr>"

text \<open>A report left in \<open>processing\<close> by an earlier run that started at 0.0001 s, with one
  step done and one error logged; a report that started processing just now; a store with
  both and a pending one.\<close>

definition running_report :: Report where
  "running_report =
    blank_report\<lparr>status := Processing, processing_started_at := Some 100,
                 processing_steps :=
                   [\<lparr>step = ''website_analysis'', step_status = ''completed'', progress = 100,
                     message = ''Website analysis completed successfully'',
                     updated_at = Some ''1970-01-01T00:00:00+00:00''\<rparr>],
                 error_messages := [''old error'']\<rparr>"

definition running_world :: world where
  "running_world =
    \<lparr>reports = [(''r1'', running_report)], websites = [(1, example_website)],
     queue = [], calls = []\<rparr>"


text \<open>A failed report whose \<open>completed_at\<close> is still null.\<close>

definition failed_report :: Report where
  "failed_report = blank_report\<lparr>status := Failed, processing_started_at := Some 100\<rparr>"

text \<open>
  Environments for job-level failures: the channel layer refusing the completion message
  with a given text, the store refusing the first save of a run, and the growth analyzer
  raising while the trust calculator answers.
\<close>

definition failing_env :: "string \<Rightarrow> env" where
  "failing_env msg =
    example_env\<lparr>fault := (\<lambda>l. if l = ''report_completed'' then Some msg else None)\<rparr>"

definition store_down_env :: env where
  "store_down_env =
    example_env\<lparr>fault := (\<lambda>l. if l = ''save:processing'' then Some ''database is locked''
                               else None)\<rparr>"


text \<open>
  The successive attempts of the worker on the report \<open>r1\<close>: the attempt with
  \<open>retries = n\<close> fails with the first text of the list, the next one with the second, and
  so on; the result is what each attempt handed back, and the store after the last of them.
\<close>

fun attempts :: "string list \<Rightarrow> nat \<Rightarrow> world \<Rightarrow> task_result list \<times> world" where
  "attempts [] n w = ([], w)"
| "attempts (msg # msgs) n w =
     (case generate_marketing_report (failing_env msg) n ''r1'' w of
        (res, w1) \<Rightarrow>
          (case attempts msgs (Suc n) w1 of (ress, w2) \<Rightarrow> (res # ress, w2)))"

section \<open>Properties of the report record\<close>

text \<open>
  Claim C9. The overall progress of a report, the share of the entries of
  \<open>processing_steps\<close> whose status is \<open>completed\<close> times 100, is never negative and never
  above 100, and it is 0 for an empty step list. (The quotient is exact here; floating-point
  division and multiplication are monotone, so the bounds carry over.)
\<close>

theorem progress_percentage_bounds:
  "0 \<le> progress_percentage r \<and> progress_percentage r \<le> 100
   \<and> progress_percentage (r\<lparr>processing_steps := []\<rparr>) = 0"
proof -
  define c where "c = length (filter (\<lambda>s. step_status s = ''completed'') (processing_steps r))"
  define t where "t = length (processing_steps r)"
  define q :: rat where "q = of_nat c / of_nat t"
  have le: "c \<le> t" by (simp add: c_def t_def)
  have empty: "progress_percentage (r\<lparr>processing_steps := []\<rparr>) = 0"
    by (simp add: progress_percentage_def)
  show ?thesis
  proof (cases "processing_steps r = []")
    case True
    then show ?thesis by (simp add: progress_percentage_def)
  next
    case False
    then have pos: "0 < t" by (simp add: t_def)
    have q1: "q \<le> 1"
      using le pos by (simp add: q_def divide_le_eq_1)
    have q0: "0 \<le> q" by (simp add: q_def)
    have eq: "progress_percentage r = q * 100"
      using False pos by (simp add: progress_percentage_def Let_def q_def c_def t_def)
    from q0 q1 have "0 \<le> q * 100 \<and> q * 100 \<le> 100" by linarith
    with eq empty show ?thesis by simp
  qed
qed

text \<open>
  Claim C7, as amended. \<open>Report.save\<close> sets \<open>completed_at\<close> to the current time exactly
  when the status is \<open>completed\<close> and the field is still null; with any other status, also
  \<open>failed\<close>, it leaves the field as it is, and it never changes a \<open>completed_at\<close> that is
  set. It changes neither the status nor \<open>processing_started_at\<close>. When both timestamps
  are present it stores their difference in whole seconds as \<open>processing_time_seconds\<close>,
  and saving a saved record again changes nothing.
\<close>

theorem save_timestamps:
  "completed_at (pre_save now r) =
     (if status r = Completed \<and> completed_at r = None then Some now else completed_at r)
   \<and> processing_started_at (pre_save now r) = processing_started_at r
   \<and> status (pre_save now r) = status r
   \<and> processing_time_seconds
        (pre_save now (r\<lparr>completed_at := Some c, processing_started_at := Some s\<rparr>))
        = Some (total_seconds_int (c - s))
   \<and> pre_save now' (pre_save now r) = pre_save now r"
  by (auto simp add: pre_save_def Let_def split: option.splits)

text \<open>
  The claim as stated fails: a save of a report whose status has become \<open>failed\<close> does
  not set \<open>completed_at\<close>.
\<close>

theorem save_failed_counterexample:
  "status failed_report = Failed \<and> completed_at failed_report = None
   \<and> completed_at (pre_save 5000000000 failed_report) = None"
  by (simp add: failed_report_def blank_report_def pre_save_def)

section \<open>Auxiliary facts about the operations\<close>

lemma dict_get_set: "dict_get (dict_set k v d) k' = (if k' = k then Some v else dict_get d k')"
  by (induction d) (auto simp: dict_get_def)

lemma dict_has_set: "dict_has (dict_set k v d) k' = (k' = k \<or> dict_has d k')"
  by (simp add: dict_has_def dict_get_set)



lemma find_update_step:
  assumes "\<And>s. step (f s) = step s"
  shows "find (\<lambda>s. step s = n) (update_step m f ss) =
         (if m = n then map_option f (find (\<lambda>s. step s = n) ss) else find (\<lambda>s. step s = n) ss)"
  using assms by (induction ss) auto

lemma pre_save_frame:
  "status (pre_save now r) = status r"
  "error_messages (pre_save now r) = error_messages r"
  "processing_started_at (pre_save now r) = processing_started_at r"
  "processing_steps (pre_save now r) = processing_steps r"
  "seo_data (pre_save now r) = seo_data r"
  "social_data (pre_save now r) = social_data r"
  "reputation_data (pre_save now r) = reputation_data r"
  "competitor_data (pre_save now r) = competitor_data r"
  "trust_score (pre_save now r) = trust_score r"
  "growth_opportunities (pre_save now r) = growth_opportunities r"
  "website_id (pre_save now r) = website_id r"
  "requester_email (pre_save now r) = requester_email r"
  by (simp_all add: pre_save_def Let_def split: option.splits)

lemma save_frame:
  "report_id (save now st) = report_id st"
  "website (save now st) = website st"
  "collected_data (save now st) = collected_data st"
  "report (save now st) = pre_save now (report st)"
  "websites (db (save now st)) = websites (db st)"
  "queue (db (save now st)) = queue (db st)"
  "calls (db (save now st)) = calls (db st)"
  "dict_get (reports (db (save now st))) j =
     (if j = report_id st then Some (pre_save now (report st)) else dict_get (reports (db st)) j)"
  by (simp_all add: save_def Let_def dict_get_set)

lemma try_save_frame:
  "fst (try_save e site st) = fault e site"
  "report_id (snd (try_save e site st)) = report_id st"
  "website (snd (try_save e site st)) = website st"
  "collected_data (snd (try_save e site st)) = collected_data st"
  "report (snd (try_save e site st)) = pre_save (clock e site) (report st)"
  "queue (db (snd (try_save e site st))) = queue (db st)"
  "dict_get (reports (db (snd (try_save e site st)))) j =
     (if j = report_id st \<and> fault e site = None then Some (pre_save (clock e site) (report st))
      else dict_get (reports (db st)) j)"
  by (simp_all add: try_save_def save_frame split: option.splits)

lemma ups_frame:
  "report_id (update_processing_step e st n s p m) = report_id st"
  "website (update_processing_step e st n s p m) = website st"
  "collected_data (update_processing_step e st n s p m) = collected_data st"
  "status (report (update_processing_step e st n s p m)) = status (report st)"
  "error_messages (report (update_processing_step e st n s p m)) = error_messages (report st)"
  "processing_started_at (report (update_processing_step e st n s p m)) = processing_started_at (report st)"
  "seo_data (report (update_processing_step e st n s p m)) = seo_data (report st)"
  "social_data (report (update_processing_step e st n s p m)) = social_data (report st)"
  "reputation_data (report (update_processing_step e st n s p m)) = reputation_data (report st)"
  "competitor_data (report (update_processing_step e st n s p m)) = competitor_data (report st)"
  "trust_score (report (update_processing_step e st n s p m)) = trust_score (report st)"
  "growth_opportunities (report (update_processing_step e st n s p m)) = growth_opportunities (report st)"
  "website_id (report (update_processing_step e st n s p m)) = website_id (report st)"
  "requester_email (report (update_processing_step e st n s p m)) = requester_email (report st)"
  "queue (db (update_processing_step e st n s p m)) = queue (db st)"
  "dict_get (reports (db (update_processing_step e st n s p m))) j
     = (if j = report_id st \<and> fault e (''save:'' @ n) = None
        then Some (report (update_processing_step e st n s p m))
        else dict_get (reports (db st)) j)"
  by (simp_all add: update_processing_step_def try_save_frame pre_save_frame)

text \<open>The errors stored for the report of the run are those of the object in memory, once
  they have been saved: no stage changes either.\<close>

lemma ups_errors:
  assumes "map_option error_messages (dict_get (reports (db st)) (report_id st))
             = Some (error_messages (report st))"
  shows "map_option error_messages
           (dict_get (reports (db (update_processing_step e st n s p m))) (report_id st))
             = Some (error_messages (report st))"
  using assms by (simp add: ups_frame)

lemma ups_entry:
  "step_entry k (report (update_processing_step e st n s p m)) =
     (if n = k
      then map_option (\<lambda>x. x\<lparr>step_status := s, progress := p, message := m,
                          updated_at := Some (isoformat e (clock e (''updated_at:'' @ n)))\<rparr>)
             (step_entry k (report st))
      else step_entry k (report st))"
  by (simp add: step_entry_def update_processing_step_def try_save_frame pre_save_frame
      find_update_step)

lemma invoke_frame:
  "report_id (invoke n st) = report_id st"
  "website (invoke n st) = website st"
  "collected_data (invoke n st) = collected_data st"
  "report (invoke n st) = report st"
  "reports (db (invoke n st)) = reports (db st)"
  "queue (db (invoke n st)) = queue (db st)"
  by (simp_all add: invoke_def)

lemma website_save_frame:
  "fst (website_save e st) = fault e ''website.save''"
  "report_id (snd (website_save e st)) = report_id st"
  "collected_data (snd (website_save e st)) = collected_data st"
  "report (snd (website_save e st)) = report st"
  "reports (db (snd (website_save e st))) = reports (db st)"
  "queue (db (snd (website_save e st))) = queue (db st)"
  by (simp_all add: website_save_def Let_def split: option.splits)

lemma step_entry_update:
  "step_entry n (r\<lparr>seo_data := x\<rparr>) = step_entry n r"
  "step_entry n (r\<lparr>social_data := x\<rparr>) = step_entry n r"
  "step_entry n (r\<lparr>reputation_data := x\<rparr>) = step_entry n r"
  "step_entry n (r\<lparr>competitor_data := x\<rparr>) = step_entry n r"
  "step_entry n (r\<lparr>trust_score := x\<rparr>) = step_entry n r"
  "step_entry n (r\<lparr>growth_opportunities := x\<rparr>) = step_entry n r"
  "step_entry n (r\<lparr>executive_summary := x\<rparr>) = step_entry n r"
  "step_entry n (r\<lparr>technical_analysis := x\<rparr>) = step_entry n r"
  "step_entry n (r\<lparr>status := y\<rparr>) = step_entry n r"
  "step_entry n (r\<lparr>completed_at := z\<rparr>) = step_entry n r"
  "step_entry n (r\<lparr>processing_time_seconds := z\<rparr>) = step_entry n r"
  "step_entry n (pre_save now r) = step_entry n r"
  by (simp_all add: step_entry_def pre_save_frame)

lemmas stage_simps = run_stage_def Let_def ups_frame ups_entry invoke_frame website_save_frame
  case_prod_beta dict_get_set step_entry_update

lemma stage_website_frame:
  "report_id (stage_website e st) = report_id st"
  "k \<noteq> ''website_data'' \<Longrightarrow> dict_get (collected_data (stage_website e st)) k = dict_get (collected_data st) k"
  "status (report (stage_website e st)) = status (report st)"
  "error_messages (report (stage_website e st)) = error_messages (report st)"
  "processing_started_at (report (stage_website e st)) = processing_started_at (report st)"
  "seo_data (report (stage_website e st)) = seo_data (report st)"
  "social_data (report (stage_website e st)) = social_data (report st)"
  "reputation_data (report (stage_website e st)) = reputation_data (report st)"
  "competitor_data (report (stage_website e st)) = competitor_data (report st)"
  "requester_email (report (stage_website e st)) = requester_email (report st)"
  "n \<noteq> ''website_analysis'' \<Longrightarrow> step_entry n (report (stage_website e st)) = step_entry n (report st)"
  "map_option error_messages (dict_get (reports (db st)) (report_id st))
       = Some (error_messages (report st))
     \<Longrightarrow> map_option error_messages (dict_get (reports (db (stage_website e st))) (report_id st))
       = Some (error_messages (report st))"
  by (auto simp add: stage_website_def website_try_def stage_simps split: option.splits sum.splits)

lemma stage_website_sets:
  "\<exists>d. dict_get (collected_data (stage_website e st)) ''website_data'' = Some (JDict d)"
  by (auto simp add: stage_website_def website_try_def website_fallback_def stage_simps split: option.splits sum.splits)

lemma stage_seo_frame:
  "report_id (stage_seo e st) = report_id st"
  "website (stage_seo e st) = website st"
  "k \<noteq> ''seo_data'' \<Longrightarrow> dict_get (collected_data (stage_seo e st)) k = dict_get (collected_data st) k"
  "status (report (stage_seo e st)) = status (report st)"
  "error_messages (report (stage_seo e st)) = error_messages (report st)"
  "processing_started_at (report (stage_seo e st)) = processing_started_at (report st)"
  "social_data (report (stage_seo e st)) = social_data (report st)"
  "reputation_data (report (stage_seo e st)) = reputation_data (report st)"
  "competitor_data (report (stage_seo e st)) = competitor_data (report st)"
  "requester_email (report (stage_seo e st)) = requester_email (report st)"
  "n \<noteq> ''seo_analysis'' \<Longrightarrow> step_entry n (report (stage_seo e st)) = step_entry n (report st)"
  "map_option error_messages (dict_get (reports (db st)) (report_id st))
       = Some (error_messages (report st))
     \<Longrightarrow> map_option error_messages (dict_get (reports (db (stage_seo e st))) (report_id st))
       = Some (error_messages (report st))"
  by (auto simp add: stage_seo_def seo_try_def stage_simps split: option.splits sum.splits)

lemma stage_seo_sets:
  "\<exists>v. dict_get (collected_data (stage_seo e st)) ''seo_data'' = Some v"
  by (auto simp add: stage_seo_def seo_try_def stage_simps split: option.splits sum.splits)

lemma stage_social_frame:
  "report_id (stage_social e st) = report_id st"
  "website (stage_social e st) = website st"
  "k \<noteq> ''social_data'' \<Longrightarrow> dict_get (collected_data (stage_social e st)) k = dict_get (collected_data st) k"
  "status (report (stage_social e st)) = status (report st)"
  "error_messages (report (stage_social e st)) = error_messages (report st)"
  "processing_started_at (report (stage_social e st)) = processing_started_at (report st)"
  "seo_data (report (stage_social e st)) = seo_data (report st)"
  "reputation_data (report (stage_social e st)) = reputation_data (report st)"
  "competitor_data (report (stage_social e st)) = competitor_data (report st)"
  "requester_email (report (stage_social e st)) = requester_email (report st)"
  "n \<noteq> ''social_analysis'' \<Longrightarrow> step_entry n (report (stage_social e st)) = step_entry n (report st)"
  "map_option error_messages (dict_get (reports (db st)) (report_id st))
       = Some (error_messages (report st))
     \<Longrightarrow> map_option error_messages (dict_get (reports (db (stage_social e st))) (report_id st))
       = Some (error_messages (report st))"
  by (auto simp add: stage_social_def social_try_def stage_simps split: option.splits sum.splits)

lemma stage_social_sets:
  "\<exists>v. dict_get (collected_data (stage_social e st)) ''social_data'' = Some v"
  by (auto simp add: stage_social_def social_try_def stage_simps split: option.splits sum.splits)

lemma stage_reputation_frame:
  "report_id (stage_reputation e st) = report_id st"
  "website (stage_reputation e st) = website st"
  "k \<noteq> ''reputation_data'' \<Longrightarrow> dict_get (collected_data (stage_reputation e st)) k = dict_get (collected_data st) k"
  "status (report (stage_reputation e st)) = status (report st)"
  "error_messages (report (stage_reputation e st)) = error_messages (report st)"
  "processing_started_at (report (stage_reputation e st)) = processing_started_at (report st)"
  "seo_data (report (stage_reputation e st)) = seo_data (report st)"
  "social_data (report (stage_reputation e st)) = social_data (report st)"
  "competitor_data (report (stage_reputation e st)) = competitor_data (report st)"
  "requester_email (report (stage_reputation e st)) = requester_email (report st)"
  "n \<noteq> ''reputation_analysis'' \<Longrightarrow> step_entry n (report (stage_reputation e st)) = step_entry n (report st)"
  "map_option error_messages (dict_get (reports (db st)) (report_id st))
       = Some (error_messages (report st))
     \<Longrightarrow> map_option error_messages (dict_get (reports (db (stage_reputation e st))) (report_id st))
       = Some (error_messages (report st))"
  by (auto simp add: stage_reputation_def reputation_try_def stage_simps split: option.splits sum.splits)

lemma stage_reputation_sets:
  "\<exists>v. dict_get (collected_data (stage_reputation e st)) ''reputation_data'' = Some v"
  by (auto simp add: stage_reputation_def reputation_try_def stage_simps split: option.splits sum.splits)

lemma stage_competitor_frame:
  "report_id (stage_competitor e st) = report_id st"
  "website (stage_competitor e st) = website st"
  "k \<noteq> ''competitor_data'' \<Longrightarrow> dict_get (collected_data (stage_competitor e st)) k = dict_get (collected_data st) k"
  "status (report (stage_competitor e st)) = status (report st)"
  "error_messages (report (stage_competitor e st)) = error_messages (report st)"
  "processing_started_at (report (stage_competitor e st)) = processing_started_at (report st)"
  "seo_data (report (stage_competitor e st)) = seo_data (report st)"
  "social_data (report (stage_competitor e st)) = social_data (report st)"
  "reputation_data (report (stage_competitor e st)) = reputation_data (report st)"
  "requester_email (report (stage_competitor e st)) = requester_email (report st)"
  "n \<noteq> ''competitor_analysis'' \<Longrightarrow> step_entry n (report (stage_competitor e st)) = step_entry n (report st)"
  "map_option error_messages (dict_get (reports (db st)) (report_id st))
       = Some (error_messages (report st))
     \<Longrightarrow> map_option error_messages (dict_get (reports (db (stage_competitor e st))) (report_id st))
       = Some (error_messages (report st))"
  by (auto simp add: stage_competitor_def competitor_try_def stage_simps split: option.splits sum.splits)

lemma stage_competitor_sets:
  "\<exists>v. dict_get (collected_data (stage_competitor e st)) ''competitor_data'' = Some v"
  by (auto simp add: stage_competitor_def competitor_try_def stage_simps split: option.splits sum.splits)

lemma stage_ai_frame:
  "report_id (stage_ai e st) = report_id st"
  "website (stage_ai e st) = website st"
  "k \<noteq> ''trust_score'' \<Longrightarrow> k \<noteq> ''growth_opportunities'' \<Longrightarrow>
     dict_get (collected_data (stage_ai e st)) k = dict_get (collected_data st) k"
  "status (report (stage_ai e st)) = status (report st)"
  "error_messages (report (stage_ai e st)) = error_messages (report st)"
  "processing_started_at (report (stage_ai e st)) = processing_started_at (report st)"
  "seo_data (report (stage_ai e st)) = seo_data (report st)"
  "social_data (report (stage_ai e st)) = social_data (report st)"
  "reputation_data (report (stage_ai e st)) = reputation_data (report st)"
  "competitor_data (report (stage_ai e st)) = competitor_data (report st)"
  "requester_email (report (stage_ai e st)) = requester_email (report st)"
  "n \<noteq> ''ai_analysis'' \<Longrightarrow> step_entry n (report (stage_ai e st)) = step_entry n (report st)"
  "map_option error_messages (dict_get (reports (db st)) (report_id st))
       = Some (error_messages (report st))
     \<Longrightarrow> map_option error_messages (dict_get (reports (db (stage_ai e st))) (report_id st))
       = Some (error_messages (report st))"
  by (auto simp add: stage_ai_def ai_try_def stage_simps split: option.splits sum.splits)

lemma stage_ai_sets:
  "\<exists>d. dict_get (collected_data (stage_ai e st)) ''trust_score'' = Some (JDict d)"
  "\<exists>v. dict_get (collected_data (stage_ai e st)) ''growth_opportunities'' = Some v"
  by (auto simp add: stage_ai_def ai_try_def trust_fallback_def stage_simps split: option.splits sum.splits)


lemma stage_compilation_frame:
  assumes "stage_compilation e st = Inr st'"
  shows "report_id st' = report_id st"
    and "website st' = website st"
    and "collected_data st' = collected_data st"
    and "status (report st') = status (report st)"
    and "error_messages (report st') = error_messages (report st)"
    and "processing_started_at (report st') = processing_started_at (report st)"
    and "seo_data (report st') = seo_data (report st)"
    and "social_data (report st') = social_data (report st)"
    and "reputation_data (report st') = reputation_data (report st)"
    and "competitor_data (report st') = competitor_data (report st)"
    and "trust_score (report st') = trust_score (report st)"
    and "growth_opportunities (report st') = growth_opportunities (report st)"
    and "requester_email (report st') = requester_email (report st)"
    and "n \<noteq> ''report_compilation'' \<Longrightarrow> step_entry n (report st') = step_entry n (report st)"
    and "map_option error_messages (dict_get (reports (db st)) (report_id st))
           = Some (error_messages (report st))
         \<Longrightarrow> map_option error_messages (dict_get (reports (db st')) (report_id st))
           = Some (error_messages (report st))"
  using assms
  by (auto simp add: stage_compilation_def compilation_try_def stage_simps
      split: option.splits sum.splits prod.splits)

lemma stage_compilation_total:
  assumes "dict_get (collected_data st) ''trust_score'' = Some (JDict d)"
  shows "\<exists>st'. stage_compilation e st = Inr st'"
  using assms
  by (auto simp add: stage_compilation_def compilation_try_def overall_of_def as_dict_def stage_simps
      split: option.splits sum.splits prod.splits)

lemma complete_finished:
  assumes "complete e st = Finished res st'"
  shows "report_id st' = report_id st"
    and "website st' = website st"
    and "collected_data st' = collected_data st"
    and "status (report st') = Completed"
    and "error_messages (report st') = error_messages (report st)"
    and "processing_started_at (report st') = processing_started_at (report st)"
    and "seo_data (report st') = seo_data (report st)"
    and "social_data (report st') = social_data (report st)"
    and "reputation_data (report st') = reputation_data (report st)"
    and "competitor_data (report st') = competitor_data (report st)"
    and "trust_score (report st') = trust_score (report st)"
    and "growth_opportunities (report st') = growth_opportunities (report st)"
    and "step_entry n (report st') = step_entry n (report st)"
    and "dict_get (reports (db st')) (report_id st) = Some (report st')"
  using assms
  by (auto simp add: complete_def result_of_def Let_def case_prod_beta try_save_frame
      pre_save_frame step_entry_update
      split: option.splits sum.splits if_splits)

lemma complete_raised:
  assumes "complete e st = Raised exc w1"
    and "map_option error_messages (dict_get (reports (db st)) (report_id st))
           = Some (error_messages (report st))"
  shows "\<exists>r. dict_get (reports w1) (report_id st) = Some r
             \<and> error_messages r = error_messages (report st)"
  using assms
  by (auto simp add: complete_def result_of_def Let_def case_prod_beta try_save_frame
      pre_save_frame
      split: option.splits sum.splits if_splits)

lemma complete_total:
  assumes "dict_get (collected_data st) ''trust_score'' = Some (JDict d)"
    and "notify e = None"
    and "requester_email (report st) = [] \<or> fault e ''send_report_notification'' = None"
    and "fault e ''save:completed'' = None"
  shows "\<exists>res st'. complete e st = Finished res st'"
  using assms
  by (auto simp add: complete_def result_of_def overall_of_def as_dict_def Let_def
      case_prod_beta try_save_frame pre_save_frame split: option.splits sum.splits)

lemma begin_ok:
  assumes "begin_processing e i r w = Inr st"
  shows "report_id st = i"
    and "collected_data st = []"
    and "status (report st) = Processing"
    and "processing_started_at (report st) = Some (clock e ''processing_started_at'')"
    and "error_messages (report st) = []"
    and "processing_steps (report st) = initial_steps"
    and "seo_data (report st) = seo_data r"
    and "social_data (report st) = social_data r"
    and "reputation_data (report st) = reputation_data r"
    and "competitor_data (report st) = competitor_data r"
    and "requester_email (report st) = requester_email r"
    and "dict_get (reports (db st)) i = Some (report st)"
    and "dict_get (websites w) (website_id r) = Some (website st)"
  using assms
  by (auto simp add: begin_processing_def Let_def case_prod_beta try_save_frame pre_save_frame
      split: option.splits)

text \<open>An exception of the first block comes either from the first save, with the store as
  it was before the run, or after it, with the cleared list of errors stored.\<close>

lemma begin_raised:
  assumes "begin_processing e i r w = Inl (exc, w1)"
    and "dict_get (reports w) i = Some r"
  shows "\<exists>r1. dict_get (reports w1) i = Some r1
           \<and> (if fault e ''save:processing'' = None then error_messages r1 = [] else w1 = w)"
  using assms
  by (auto simp add: begin_processing_def Let_def case_prod_beta try_save_frame dict_get_set
      pre_save_frame split: option.splits)

lemma begin_total:
  assumes "dict_get (websites w) (website_id r) = Some ws"
    and "fault e ''save:processing'' = None"
    and "fault e ''save:steps'' = None"
  shows "\<exists>st. begin_processing e i r w = Inr st"
  using assms
  by (auto simp add: begin_processing_def Let_def case_prod_beta try_save_frame pre_save_frame)

lemma try_body_finished:
  assumes "try_body e i w = Finished res st"
  obtains r st0 st7 where "dict_get (reports w) i = Some r"
    and "begin_processing e i r w = Inr st0"
    and "run_stages e st0 = Inr st7"
    and "complete e st7 = Finished res st"
  using assms
  by (auto simp add: try_body_def split: option.splits sum.splits prod.splits)

lemma begin_errors:
  assumes "begin_processing e i r w = Inr st"
  shows "map_option error_messages (dict_get (reports (db st)) (report_id st))
           = Some (error_messages (report st))"
  using begin_ok(1,12)[OF assms] by simp

lemma run_stages_frame:
  assumes "run_stages e st = Inr st'"
  shows "report_id st' = report_id st"
    and "status (report st') = status (report st)"
    and "error_messages (report st') = error_messages (report st)"
    and "processing_started_at (report st') = processing_started_at (report st)"
    and "requester_email (report st') = requester_email (report st)"
  using assms unfolding run_stages_def
  by (simp_all add: stage_compilation_frame stage_ai_frame stage_competitor_frame
      stage_reputation_frame stage_social_frame stage_seo_frame stage_website_frame)

lemma run_stages_errors:
  assumes "run_stages e st = Inr st'"
    and "map_option error_messages (dict_get (reports (db st)) (report_id st))
           = Some (error_messages (report st))"
  shows "map_option error_messages (dict_get (reports (db st')) (report_id st'))
           = Some (error_messages (report st'))"
proof -
  let ?s1 = "stage_website e st"
  let ?s2 = "stage_seo e ?s1"
  let ?s3 = "stage_social e ?s2"
  let ?s4 = "stage_reputation e ?s3"
  let ?s5 = "stage_competitor e ?s4"
  let ?s6 = "stage_ai e ?s5"
  have c: "stage_compilation e ?s6 = Inr st'"
    using assms(1) by (simp add: run_stages_def)
  have i1: "map_option error_messages (dict_get (reports (db ?s1)) (report_id ?s1))
              = Some (error_messages (report ?s1))"
    using stage_website_frame(12)[OF assms(2), of e] by (simp add: stage_website_frame)
  have i2: "map_option error_messages (dict_get (reports (db ?s2)) (report_id ?s2))
              = Some (error_messages (report ?s2))"
    using stage_seo_frame(12)[OF i1, of e] by (simp add: stage_seo_frame)
  have i3: "map_option error_messages (dict_get (reports (db ?s3)) (report_id ?s3))
              = Some (error_messages (report ?s3))"
    using stage_social_frame(12)[OF i2, of e] by (simp add: stage_social_frame)
  have i4: "map_option error_messages (dict_get (reports (db ?s4)) (report_id ?s4))
              = Some (error_messages (report ?s4))"
    using stage_reputation_frame(12)[OF i3, of e] by (simp add: stage_reputation_frame)
  have i5: "map_option error_messages (dict_get (reports (db ?s5)) (report_id ?s5))
              = Some (error_messages (report ?s5))"
    using stage_competitor_frame(12)[OF i4, of e] by (simp add: stage_competitor_frame)
  have i6: "map_option error_messages (dict_get (reports (db ?s6)) (report_id ?s6))
              = Some (error_messages (report ?s6))"
    using stage_ai_frame(13)[OF i5, of e] by (simp add: stage_ai_frame)
  show ?thesis
    using stage_compilation_frame(15)[OF c i6]
    by (simp add: stage_compilation_frame(1,5)[OF c])
qed

lemma run_stages_keys:
  assumes "run_stages e st = Inr st'"
  shows "list_all (dict_has (collected_data st')) output_keys"
proof -
  let ?s1 = "stage_website e st"
  let ?s2 = "stage_seo e ?s1"
  let ?s3 = "stage_social e ?s2"
  let ?s4 = "stage_reputation e ?s3"
  let ?s5 = "stage_competitor e ?s4"
  let ?s6 = "stage_ai e ?s5"
  from assms have cd: "collected_data st' = collected_data ?s6"
    unfolding run_stages_def by (rule stage_compilation_frame)
  have k1: "dict_has (collected_data ?s6) ''website_data''"
    using stage_website_sets[of e st]
    by (auto simp add: dict_has_def stage_ai_frame stage_competitor_frame
        stage_reputation_frame stage_social_frame stage_seo_frame)
  have k2: "dict_has (collected_data ?s6) ''seo_data''"
    using stage_seo_sets[of e ?s1]
    by (auto simp add: dict_has_def stage_ai_frame stage_competitor_frame
        stage_reputation_frame stage_social_frame)
  have k3: "dict_has (collected_data ?s6) ''social_data''"
    using stage_social_sets[of e ?s2]
    by (auto simp add: dict_has_def stage_ai_frame stage_competitor_frame stage_reputation_frame)
  have k4: "dict_has (collected_data ?s6) ''reputation_data''"
    using stage_reputation_sets[of e ?s3]
    by (auto simp add: dict_has_def stage_ai_frame stage_competitor_frame)
  have k5: "dict_has (collected_data ?s6) ''competitor_data''"
    using stage_competitor_sets[of e ?s4]
    by (auto simp add: dict_has_def stage_ai_frame)
  have k6: "dict_has (collected_data ?s6) ''trust_score''"
    using stage_ai_sets(1)[of e ?s5] by (auto simp add: dict_has_def)
  have k7: "dict_has (collected_data ?s6) ''growth_opportunities''"
    using stage_ai_sets(2)[of e ?s5] by (auto simp add: dict_has_def)
  from k1 k2 k3 k4 k5 k6 k7 show ?thesis
    by (simp add: cd output_keys_def)
qed

lemma run_stages_total: "\<exists>st'. run_stages e st = Inr st'"
  unfolding run_stages_def
  using stage_ai_sets(1) stage_compilation_total by blast

lemma run_stages_trust:
  assumes "run_stages e st = Inr st'"
  shows "\<exists>d. dict_get (collected_data st') ''trust_score'' = Some (JDict d)"
  using assms stage_ai_sets(1) unfolding run_stages_def
  by (simp add: stage_compilation_frame)

lemma try_body_total:
  assumes "dict_get (reports w) i = Some r"
    and "dict_get (websites w) (website_id r) = Some ws"
    and "notify e = None"
    and "requester_email r = [] \<or> fault e ''send_report_notification'' = None"
    and "fault e ''load'' = None"
    and "fault e ''save:processing'' = None"
    and "fault e ''save:steps'' = None"
    and "fault e ''save:completed'' = None"
  shows "\<exists>res st. try_body e i w = Finished res st"
proof -
  from begin_total[OF assms(2,6,7)] obtain st0 where b: "begin_processing e i r w = Inr st0"
    by blast
  from run_stages_total obtain st7 where s: "run_stages e st0 = Inr st7" by blast
  from run_stages_trust[OF s] obtain d where
    t: "dict_get (collected_data st7) ''trust_score'' = Some (JDict d)" by blast
  have em: "requester_email (report st7) = requester_email r"
    using run_stages_frame(5)[OF s] begin_ok(11)[OF b] by simp
  from complete_total[OF t assms(3) _ assms(8)] assms(4) em obtain res st where
    "complete e st7 = Finished res st" by auto
  with assms(1,5) b s show ?thesis by (auto simp add: try_body_def)
qed

lemma all_down_finishes: "\<exists>res st. try_body all_down_env ''r1'' example_world = Finished res st"
  by (rule try_body_total[where r = blank_report and ws = example_website])
     (simp_all add: example_world_def dict_get_def blank_report_def all_down_env_def
        example_env_def notify_def)

section \<open>Properties of the task\<close>



text \<open>
  Claim C1. Whenever a run on an existing report ends without a job-level exception, the
  stored record has status \<open>completed\<close> and \<open>collected_data\<close> has a value under each of
  the seven output keys, whatever the collaborators did (each of them may have raised); the
  task returns the result of the run.
\<close>

theorem total_stage_coverage:
  assumes "try_body e i w = Finished res st"
  shows "(\<exists>r. dict_get (reports (db st)) i = Some r \<and> status r = Completed)
    \<and> list_all (dict_has (collected_data st)) output_keys
    \<and> generate_marketing_report e retries i w = (Returned res, db st)"
proof -
  from assms obtain r st0 st7 where r: "dict_get (reports w) i = Some r"
    and b: "begin_processing e i r w = Inr st0"
    and s: "run_stages e st0 = Inr st7"
    and c: "complete e st7 = Finished res st"
    by (rule try_body_finished)
  have id: "report_id st7 = i"
    using run_stages_frame(1)[OF s] begin_ok(1)[OF b] by simp
  have stored: "dict_get (reports (db st)) i = Some (report st)"
    using complete_finished(14)[OF c] id by simp
  have fin: "status (report st) = Completed" by (rule complete_finished(4)[OF c])
  have keys: "list_all (dict_has (collected_data st)) output_keys"
    using run_stages_keys[OF s] complete_finished(3)[OF c] by simp
  from stored fin keys assms show ?thesis
    by (simp add: generate_marketing_report_def)
qed

theorem total_stage_coverage_witness:
  "\<exists>res st. try_body all_down_env ''r1'' example_world = Finished res st
     \<and> (\<exists>r. dict_get (reports (db st)) ''r1'' = Some r \<and> status r = Completed)
     \<and> list_all (dict_has (collected_data st)) output_keys"
proof -
  from all_down_finishes obtain res st where
    f: "try_body all_down_env ''r1'' example_world = Finished res st" by blast
  from total_stage_coverage[OF f, of 0] f show ?thesis by blast
qed

text \<open>
  When an exception leaves the body of the task, the record is in the store, and either the
  store is the one before the run (the query or the first save raised) or the cleared list
  of errors has been saved.
\<close>

lemma try_body_raised:
  assumes "try_body e i w = Raised exc w1"
  shows "\<exists>r1. dict_get (reports w1) i = Some r1
           \<and> (if fault e ''load'' = None \<and> fault e ''save:processing'' = None
              then error_messages r1 = [] else w1 = w)"
proof -
  from assms obtain r where r: "dict_get (reports w) i = Some r"
    by (auto simp add: try_body_def split: option.splits)
  show ?thesis
  proof (cases "fault e ''load''")
    case (Some x)
    with assms r have "w1 = w" by (simp add: try_body_def)
    with r Some show ?thesis by simp
  next
    case None
    show ?thesis
    proof (cases "begin_processing e i r w")
      case (Inl p)
      with assms r None have "begin_processing e i r w = Inl (exc, w1)"
        by (cases p) (simp add: try_body_def)
      from begin_raised[OF this r] None show ?thesis by simp
    next
      case (Inr st0)
      from run_stages_total obtain st7 where s: "run_stages e st0 = Inr st7" by blast
      from assms r None Inr s have c: "complete e st7 = Raised exc w1"
        by (simp add: try_body_def)
      have sp: "fault e ''save:processing'' = None"
        using Inr by (auto simp add: begin_processing_def Let_def split: option.splits)
      have "report_id st7 = i" "error_messages (report st7) = []"
        using run_stages_frame(1,3)[OF s] begin_ok(1,5)[OF Inr] by simp_all
      with complete_raised[OF c run_stages_errors[OF s begin_errors[OF Inr]]] None sp
      show ?thesis by simp
    qed
  qed
qed

lemma on_exception_record:
  assumes "dict_get (reports w) i = Some r"
  shows "dict_get (reports (on_exception e i exc w)) j =
    (if j = i \<and> fault e ''load:failed'' = None \<and> fault e ''save:failed'' = None
     then Some (pre_save (clock e ''save:failed'')
                  (r\<lparr>status := Failed, error_messages := error_messages r @ [exc]\<rparr>))
     else dict_get (reports w) j)"
    and "queue (on_exception e i exc w) = queue w"
    and "calls (on_exception e i exc w) = calls w"
  using assms by (simp_all add: on_exception_def dict_get_set split: option.splits)

lemma try_body_notify_raises:
  assumes "dict_get (reports w) i = Some r"
    and "dict_get (websites w) (website_id r) = Some ws"
    and "notify e = Some exc"
    and "fault e ''load'' = None"
    and "fault e ''save:processing'' = None"
    and "fault e ''save:steps'' = None"
    and "fault e ''save:completed'' = None"
  shows "\<exists>w1. try_body e i w = Raised exc w1"
proof -
  from begin_total[OF assms(2,5,6)] obtain st0 where b: "begin_processing e i r w = Inr st0"
    by blast
  from run_stages_total obtain st7 where s: "run_stages e st0 = Inr st7" by blast
  have "\<exists>w1. complete e st7 = Raised exc w1"
    using assms(3,7) by (simp add: complete_def Let_def case_prod_beta try_save_frame)
  with assms(1,4) b s show ?thesis by (auto simp add: try_body_def)
qed

lemma channel_down_raises:
  "\<exists>w1. try_body channel_down_env ''r1'' running_world = Raised ''channel down'' w1"
  by (rule try_body_notify_raises[where r = running_report and ws = example_website])
     (simp_all add: running_world_def dict_get_def running_report_def blank_report_def
        channel_down_env_def example_env_def notify_def)

lemma store_down_raises:
  "try_body store_down_env ''r1'' running_world = Raised ''database is locked'' running_world"
  by (simp add: try_body_def begin_processing_def running_world_def dict_get_def
      store_down_env_def example_env_def)

text \<open>
  Claim C4, as amended. When an exception leaves the body of the task (a job-level failure),
  the task asks for a retry with countdown \<open>60 * 2 ^ retries\<close> as long as fewer than
  \<open>max_retries = 3\<close> retries have been made: 60, 120 and 240 before the first, second and
  third extra attempt (extra attempt \<open>k\<close> is the one scheduled at \<open>retries = k - 1\<close>). With
  the three retries used up it returns an error value marked \<open>retries_exhausted\<close> and
  schedules nothing; nothing is added to the queue in either case. The handler, when the
  store accepts its query and its save, marks the stored record \<open>failed\<close> and appends the
  text of the exception to the errors it finds there; when the store refuses, the record is
  left as it is. The errors it finds are not those of the earlier attempts: unless the
  exception came from the query for the report or from the first save (the store is then
  as before the attempt), the attempt has cleared the list, so that the text of its own
  exception is the only entry.
\<close>

theorem retry_backoff:
  assumes "try_body e i w = Raised exc w1"
  shows "fst (generate_marketing_report e retries i w) =
           (if retries < 3 then Retry (60 * 2 ^ retries) exc
            else Returned [(''error'', JStr (''Report generation failed for '' @ i @ '': '' @ exc)),
                           (''retries_exhausted'', JBool True)])
    \<and> fst (generate_marketing_report e 0 i w) = Retry 60 exc
    \<and> fst (generate_marketing_report e 1 i w) = Retry 120 exc
    \<and> fst (generate_marketing_report e 2 i w) = Retry 240 exc
    \<and> (\<exists>r1 r2. dict_get (reports w1) i = Some r1
          \<and> dict_get (reports (snd (generate_marketing_report e retries i w))) i = Some r2
          \<and> (if fault e ''load'' = None \<and> fault e ''save:processing'' = None
             then error_messages r1 = [] else w1 = w)
          \<and> (if fault e ''load:failed'' = None \<and> fault e ''save:failed'' = None
             then status r2 = Failed \<and> error_messages r2 = error_messages r1 @ [exc]
             else r2 = r1))
    \<and> queue (snd (generate_marketing_report e retries i w)) = queue w1"
proof -
  from try_body_raised[OF assms] obtain r1 where
    r1: "dict_get (reports w1) i = Some r1"
    and cl: "if fault e ''load'' = None \<and> fault e ''save:processing'' = None
             then error_messages r1 = [] else w1 = w" by blast
  have w2: "snd (generate_marketing_report e retries i w) = on_exception e i exc w1"
    using assms by (simp add: generate_marketing_report_def Let_def)
  have res: "fst (generate_marketing_report e n i w) =
           (if n < 3 then Retry (60 * 2 ^ n) exc
            else Returned [(''error'', JStr (''Report generation failed for '' @ i @ '': '' @ exc)),
                           (''retries_exhausted'', JBool True)])" for n
    using assms by (simp add: generate_marketing_report_def Let_def max_retries_def)
  have stored: "\<exists>r2. dict_get (reports (on_exception e i exc w1)) i = Some r2
          \<and> (if fault e ''load:failed'' = None \<and> fault e ''save:failed'' = None
             then status r2 = Failed \<and> error_messages r2 = error_messages r1 @ [exc]
             else r2 = r1)"
    by (simp add: on_exception_record(1)[OF r1] r1 pre_save_frame)
  have q: "queue (on_exception e i exc w1) = queue w1"
    by (rule on_exception_record(2)[OF r1])
  from stored obtain r2 where
    r2: "dict_get (reports (on_exception e i exc w1)) i = Some r2"
    and h2: "if fault e ''load:failed'' = None \<and> fault e ''save:failed'' = None
             then status r2 = Failed \<and> error_messages r2 = error_messages r1 @ [exc]
             else r2 = r1" by blast
  have ex: "\<exists>r1 r2. dict_get (reports w1) i = Some r1
          \<and> dict_get (reports (on_exception e i exc w1)) i = Some r2
          \<and> (if fault e ''load'' = None \<and> fault e ''save:processing'' = None
             then error_messages r1 = [] else w1 = w)
          \<and> (if fault e ''load:failed'' = None \<and> fault e ''save:failed'' = None
             then status r2 = Failed \<and> error_messages r2 = error_messages r1 @ [exc]
             else r2 = r1)"
    using r1 r2 cl h2 by blast
  from res[of retries] res[of 0] res[of 1] res[of 2] ex q show ?thesis
    unfolding w2 by simp
qed

theorem retry_backoff_witness:
  "\<exists>w1. try_body channel_down_env ''r1'' running_world = Raised ''channel down'' w1
     \<and> fst (generate_marketing_report channel_down_env 2 ''r1'' running_world)
         = Retry 240 ''channel down''
     \<and> fst (generate_marketing_report channel_down_env 3 ''r1'' running_world)
         = Returned [(''error'', JStr ''Report generation failed for r1: channel down''),
                     (''retries_exhausted'', JBool True)]
     \<and> (\<exists>r2. dict_get (reports (snd (generate_marketing_report channel_down_env 3 ''r1'' running_world)))
                 ''r1'' = Some r2 \<and> status r2 = Failed \<and> error_messages r2 = [''channel down''])"
proof -
  from channel_down_raises obtain w1 where
    f: "try_body channel_down_env ''r1'' running_world = Raised ''channel down'' w1" by blast
  have nf: "fault channel_down_env ''load'' = None"
    "fault channel_down_env ''save:processing'' = None"
    "fault channel_down_env ''load:failed'' = None"
    "fault channel_down_env ''save:failed'' = None"
    by (simp_all add: channel_down_env_def example_env_def)
  from retry_backoff[OF f, of 3] nf
  have a: "fst (generate_marketing_report channel_down_env 2 ''r1'' running_world)
         = Retry 240 ''channel down''"
    and b: "fst (generate_marketing_report channel_down_env 3 ''r1'' running_world)
         = Returned [(''error'', JStr ''Report generation failed for r1: channel down''),
                     (''retries_exhausted'', JBool True)]"
    and c: "\<exists>r2. dict_get (reports (snd (generate_marketing_report channel_down_env 3 ''r1'' running_world)))
                 ''r1'' = Some r2 \<and> status r2 = Failed \<and> error_messages r2 = [''channel down'']"
    by auto
  from f a b c show ?thesis by blast
qed

text \<open>
  The claim as stated fails in its last part: the errors of the attempts are not
  accumulated. A report with one logged error is run four times in a row, each attempt
  failing at the completion message, with the texts \<open>first\<close> to \<open>fourth\<close>; the retries
  are asked for after 60, 120 and 240, the fourth attempt gives up, and the record is
  \<open>failed\<close> with the single error \<open>fourth\<close>.
\<close>

theorem retries_keep_last_error_counterexample:
  "(case attempts [''first'', ''second'', ''third'', ''fourth''] 0 running_world of
      (results, w) \<Rightarrow>
        results = [Retry 60 ''first'', Retry 120 ''second'', Retry 240 ''third'',
                   Returned [(''error'', JStr ''Report generation failed for r1: fourth''),
                             (''retries_exhausted'', JBool True)]]
        \<and> map_option status (dict_get (reports w) ''r1'') = Some Failed
        \<and> map_option error_messages (dict_get (reports w) ''r1'') = Some [''fourth''])"
  by code_simp

lemma running_finishes:
  "\<exists>res st. try_body example_env ''r1'' running_world = Finished res st"
  by (rule try_body_total[where r = running_report and ws = example_website])
     (simp_all add: running_world_def dict_get_def running_report_def blank_report_def
        example_env_def notify_def)




section \<open>Properties of the sweep\<close>

lemma dict_get_Cons: "dict_get ((i, r) # xs) j = (if j = i then Some r else dict_get xs j)"
  by (simp add: dict_get_def)

lemma dict_get_None_iff: "dict_get xs i = None \<longleftrightarrow> i \<notin> fst ` set xs"
  by (simp add: dict_get_def map_of_eq_None_iff)

lemma mark_stuck_fields:
  "websites (mark_stuck e x w) = websites w"
  "queue (mark_stuck e x w) = queue w"
  "calls (mark_stuck e x w) = calls w"
  by (simp_all add: mark_stuck_def split: prod.splits)

lemma mark_stuck_get:
  "dict_get (reports (mark_stuck e (i, r) w)) j =
    (if j = i
     then Some (pre_save (clock e ''save:stuck'')
        (r\<lparr>status := Failed,
           error_messages := error_messages r @ [''Report processing timed out after 30 minutes'']\<rparr>))
     else dict_get (reports w) j)"
  by (simp add: mark_stuck_def dict_get_set)

lemma fold_mark_stuck_fields:
  "websites (fold (mark_stuck e) xs w) = websites w"
  "queue (fold (mark_stuck e) xs w) = queue w"
  "calls (fold (mark_stuck e) xs w) = calls w"
  by (induction xs arbitrary: w) (simp_all add: mark_stuck_fields)

lemma fold_mark_stuck_get:
  assumes "distinct (map fst xs)"
  shows "dict_get (reports (fold (mark_stuck e) xs w)) j =
    (case dict_get xs j of
       None \<Rightarrow> dict_get (reports w) j
     | Some r \<Rightarrow> Some (pre_save (clock e ''save:stuck'')
         (r\<lparr>status := Failed,
            error_messages := error_messages r @ [''Report processing timed out after 30 minutes'']\<rparr>)))"
  using assms
proof (induction xs arbitrary: w)
  case Nil
  then show ?case by (simp add: dict_get_def)
next
  case (Cons x xs)
  obtain i r where x: "x = (i, r)" by (cases x)
  from Cons.prems x have d: "distinct (map fst xs)" and ni: "dict_get xs i = None"
    by (auto simp add: dict_get_None_iff)
  have "dict_get (reports (fold (mark_stuck e) (x # xs) w)) j
      = dict_get (reports (fold (mark_stuck e) xs (mark_stuck e (i, r) w))) j"
    using x by simp
  also have "\<dots> = (case dict_get xs j of
       None \<Rightarrow> dict_get (reports (mark_stuck e (i, r) w)) j
     | Some r \<Rightarrow> Some (pre_save (clock e ''save:stuck'')
         (r\<lparr>status := Failed,
            error_messages := error_messages r @ [''Report processing timed out after 30 minutes'']\<rparr>)))"
    by (rule Cons.IH[OF d])
  finally show ?case
    using ni x by (cases "j = i") (simp_all add: dict_get_Cons mark_stuck_get split: option.splits)
qed


lemma dict_get_filter_rows:
  assumes "distinct (map fst xs)"
  shows "dict_get (filter (\<lambda>(i, r). P r) xs) j =
    (case dict_get xs j of None \<Rightarrow> None | Some r \<Rightarrow> if P r then Some r else None)"
  using assms
proof (induction xs)
  case Nil
  then show ?case by (simp add: dict_get_def)
next
  case (Cons x xs)
  obtain i r where x: "x = (i, r)" by (cases x)
  from Cons.prems x have d: "distinct (map fst xs)" and ni: "dict_get xs i = None"
    by (auto simp add: dict_get_None_iff)
  from ni have nf: "dict_get (filter (\<lambda>(i, r). P r) xs) i = None"
    by (auto simp add: dict_get_None_iff)
  show ?case using Cons.IH[OF d] ni nf x
    by (cases "j = i") (simp_all add: dict_get_Cons)
qed

lemma monitor_record:
  assumes "distinct (map fst (reports w))"
  shows "dict_get (reports (snd (monitor_report_processing e w))) j =
    (case dict_get (reports w) j of
       None \<Rightarrow> None
     | Some r \<Rightarrow>
        Some (if is_stuck (clock e ''stuck_threshold'' - thirty_minutes) r
              then pre_save (clock e ''save:stuck'')
                     (r\<lparr>status := Failed,
                        error_messages := error_messages r @ [''Report processing timed out after 30 minutes'']\<rparr>)
              else r))"
proof -
  let ?P = "is_stuck (clock e ''stuck_threshold'' - thirty_minutes)"
  let ?xs = "filter (\<lambda>(i, r). ?P r) (reports w)"
  have d: "distinct (map fst ?xs)" using assms by (rule distinct_map_filter)
  have "reports (snd (monitor_report_processing e w)) = reports (fold (mark_stuck e) ?xs w)"
    by (simp add: monitor_report_processing_def Let_def)
  then show ?thesis
    by (simp add: fold_mark_stuck_get[OF d] dict_get_filter_rows[OF assms]
        split: option.splits)
qed




section \<open>Properties of the error log\<close>

text \<open>
  Claim C6, as amended. Every run of the task first clears \<open>error_messages\<close> (line 102,
  \<open>Clear previous errors\<close>) and saves the cleared list. After that nothing is removed or
  overwritten: a run that finishes leaves the stored list empty, and a run that ends in a
  job-level exception leaves exactly the text of that exception, appended by the handler.
  When the exception comes from the query for the report or from that first save, the
  entries of before are still in the store and the handler appends to them. The handler by
  itself appends one entry to the list it finds, or nothing when the store refuses its query
  or its save, and the sweep \<open>monitor_report_processing\<close> only appends: the list before is
  a prefix of the list after.
\<close>

theorem errors_cleared_then_appended:
  assumes "dict_get (reports w) i = Some r"
  shows "(\<forall>res st. try_body e i w = Finished res st \<longrightarrow>
            dict_get (reports (db st)) i = Some (report st) \<and> error_messages (report st) = [])
    \<and> (\<forall>x w1. try_body e i w = Raised x w1 \<longrightarrow>
          (\<exists>r2. dict_get (reports (snd (generate_marketing_report e n i w))) i = Some r2
                \<and> error_messages r2 =
                    (if fault e ''load'' = None \<and> fault e ''save:processing'' = None
                     then [] else error_messages r)
                    @ (if fault e ''load:failed'' = None \<and> fault e ''save:failed'' = None
                       then [x] else [])))
    \<and> (\<exists>r'. dict_get (reports (on_exception e i exc w)) i = Some r'
          \<and> error_messages r' =
                error_messages r
                @ (if fault e ''load:failed'' = None \<and> fault e ''save:failed'' = None
                   then [exc] else []))
    \<and> (distinct (map fst (reports w)) \<longrightarrow>
          (\<exists>r'. dict_get (reports (snd (monitor_report_processing e w))) i = Some r'
                \<and> prefix (error_messages r) (error_messages r')))"
proof (intro conjI allI impI)
  fix res st
  assume f: "try_body e i w = Finished res st"
  from f obtain r' st0 st7 where r': "dict_get (reports w) i = Some r'"
    and b: "begin_processing e i r' w = Inr st0"
    and s: "run_stages e st0 = Inr st7"
    and c: "complete e st7 = Finished res st"
    by (rule try_body_finished)
  have id: "report_id st7 = i"
    using run_stages_frame(1)[OF s] begin_ok(1)[OF b] by simp
  show "dict_get (reports (db st)) i = Some (report st)"
    using complete_finished(14)[OF c] id by simp
  show "error_messages (report st) = []"
    using complete_finished(5)[OF c] run_stages_frame(3)[OF s] begin_ok(5)[OF b] by simp
next
  fix x w1
  assume f: "try_body e i w = Raised x w1"
  from try_body_raised[OF f] obtain r1 where
    r1: "dict_get (reports w1) i = Some r1"
    and cl: "if fault e ''load'' = None \<and> fault e ''save:processing'' = None
             then error_messages r1 = [] else w1 = w" by blast
  have e1: "error_messages r1 =
      (if fault e ''load'' = None \<and> fault e ''save:processing'' = None
       then [] else error_messages r)"
    using cl r1 assms by (auto split: if_splits)
  have w2: "snd (generate_marketing_report e n i w) = on_exception e i x w1"
    using f by (simp add: generate_marketing_report_def Let_def)
  show "\<exists>r2. dict_get (reports (snd (generate_marketing_report e n i w))) i = Some r2
                \<and> error_messages r2 =
                    (if fault e ''load'' = None \<and> fault e ''save:processing'' = None
                     then [] else error_messages r)
                    @ (if fault e ''load:failed'' = None \<and> fault e ''save:failed'' = None
                       then [x] else [])"
    unfolding w2 e1[symmetric]
    by (simp add: on_exception_record(1)[OF r1] r1 pre_save_frame)
next
  show "\<exists>r'. dict_get (reports (on_exception e i exc w)) i = Some r'
          \<and> error_messages r' =
                error_messages r
                @ (if fault e ''load:failed'' = None \<and> fault e ''save:failed'' = None
                   then [exc] else [])"
    by (simp add: on_exception_record(1)[OF assms] assms pre_save_frame)
next
  assume d: "distinct (map fst (reports w))"
  show "\<exists>r'. dict_get (reports (snd (monitor_report_processing e w))) i = Some r'
                \<and> prefix (error_messages r) (error_messages r')"
    by (simp add: monitor_record[OF d] assms pre_save_frame)
qed

theorem errors_cleared_then_appended_witness:
  "dict_get (reports running_world) ''r1'' = Some running_report
   \<and> distinct (map fst (reports running_world))
   \<and> (\<exists>res st. try_body example_env ''r1'' running_world = Finished res st
         \<and> error_messages (report st) = [])
   \<and> (\<exists>w1. try_body channel_down_env ''r1'' running_world = Raised ''channel down'' w1
         \<and> (\<exists>r2. dict_get (reports (snd (generate_marketing_report channel_down_env 0 ''r1'' running_world)))
                      ''r1'' = Some r2 \<and> error_messages r2 = [''channel down'']))
   \<and> try_body store_down_env ''r1'' running_world = Raised ''database is locked'' running_world
   \<and> (\<exists>r2. dict_get (reports (snd (generate_marketing_report store_down_env 0 ''r1'' running_world)))
               ''r1'' = Some r2 \<and> error_messages r2 = [''old error'', ''database is locked''])
   \<and> (\<exists>r'. dict_get (reports (snd (monitor_report_processing example_env running_world))) ''r1'' = Some r'
         \<and> prefix [''old error''] (error_messages r'))"
proof -
  have r: "dict_get (reports running_world) ''r1'' = Some running_report"
    by (simp add: running_world_def dict_get_def)
  have d: "distinct (map fst (reports running_world))"
    by (simp add: running_world_def)
  have em: "error_messages running_report = [''old error'']"
    by (simp add: running_report_def)
  from running_finishes obtain res st where
    f: "try_body example_env ''r1'' running_world = Finished res st" by blast
  from channel_down_raises obtain w1 where
    g: "try_body channel_down_env ''r1'' running_world = Raised ''channel down'' w1" by blast
  have nf: "fault channel_down_env ''load'' = None"
    "fault channel_down_env ''save:processing'' = None"
    "fault channel_down_env ''load:failed'' = None"
    "fault channel_down_env ''save:failed'' = None"
    by (simp_all add: channel_down_env_def example_env_def)
  have sf: "fault store_down_env ''save:processing'' = Some ''database is locked''"
    "fault store_down_env ''load:failed'' = None"
    "fault store_down_env ''save:failed'' = None"
    by (simp_all add: store_down_env_def example_env_def)
  note h = store_down_raises
  from errors_cleared_then_appended[OF r, of example_env 0 "''x''"] f d em
  have a: "error_messages (report st) = []"
    and m: "\<exists>r'. dict_get (reports (snd (monitor_report_processing example_env running_world))) ''r1'' = Some r'
         \<and> prefix [''old error''] (error_messages r')"
    by auto
  from errors_cleared_then_appended[OF r, of channel_down_env 0 "''x''"] g nf
  have b: "\<exists>r2. dict_get (reports (snd (generate_marketing_report channel_down_env 0 ''r1'' running_world)))
                      ''r1'' = Some r2 \<and> error_messages r2 = [''channel down'']"
    by auto
  from errors_cleared_then_appended[OF r, of store_down_env 0 "''x''"] h sf em
  have c: "\<exists>r2. dict_get (reports (snd (generate_marketing_report store_down_env 0 ''r1'' running_world)))
               ''r1'' = Some r2 \<and> error_messages r2 = [''old error'', ''database is locked'']"
    by auto
  from r d f g a b c h m show ?thesis by blast
qed

text \<open>
  The claim as stated fails: a report with one logged error is run again and finishes; the
  entry is gone.
\<close>

theorem errors_cleared_counterexample:
  "map_option error_messages (dict_get (reports running_world) ''r1'') = Some [''old error'']
   \<and> map_option error_messages
        (dict_get (reports (snd (generate_marketing_report example_env 0 ''r1'' running_world))) ''r1'')
       = Some []"
  by code_simp

section \<open>Properties of a failing stage\<close>

lemma company_name_arg_cong:
  "dict_get cd ''website_data'' = dict_get cd' ''website_data''
   \<Longrightarrow> company_name_arg e cd = company_name_arg e cd'"
  by (simp add: company_name_arg_def)



lemma stage_social_failure:
  assumes "company_name_arg e (collected_data s) = Inr name"
    and "collect_social_data e (domain (website s)) name = Inl err"
  shows "dict_get (collected_data (stage_social e s)) ''social_data''
           = Some (social_fallback (website s) err)"
    and "social_data (report (stage_social e s)) = social_data (report s)"
    and "step_entry ''social_analysis'' (report (stage_social e s)) =
           map_option (\<lambda>x. x\<lparr>step_status := ''failed'', progress := 0,
                               message := ''Social media analysis failed: '' @ err,
                               updated_at := Some (isoformat e (clock e ''updated_at:social_analysis''))\<rparr>)
             (step_entry ''social_analysis'' (report s))"
  using assms by (simp_all add: stage_social_def social_try_def stage_simps)





lemma initial_social_entry:
  "find (\<lambda>s. step s = ''social_analysis'') initial_steps =
     Some \<lparr>step = ''social_analysis'', step_status = ''pending'', progress = 0,
           message = ''Analyzing social media presence...'', updated_at = None\<rparr>"
  by (simp add: initial_steps_def)

lemma social_down_finishes:
  "\<exists>res st. try_body social_down_env ''r1'' example_world = Finished res st"
  by (rule try_body_total[where r = blank_report and ws = example_website])
     (simp_all add: example_world_def dict_get_def blank_report_def social_down_env_def
        example_env_def notify_def)

text \<open>
  Claim C2, as amended. In a run that finishes and in which the social collector raised
  \<open>err\<close> on the arguments it was given (the domain of the website and the company name
  read from \<open>website_data\<close>), \<open>collected_data\<close> holds under \<open>social_data\<close> the
  fallback with the keys \<open>domain\<close>, \<open>error\<close> and an empty \<open>platforms\<close> dictionary. The
  errors list of the record gets no entry for the stage: it is empty in memory and in the
  store. The failure is recorded in the step entry of \<open>social_analysis\<close>, which is
  \<open>failed\<close> with progress 0 and the message \<open>Social media analysis failed: err\<close>.
\<close>

theorem social_failure_fallback:
  assumes "try_body e i w = Finished res st"
    and "company_name_arg e (collected_data st) = Inr name"
    and "collect_social_data e (domain (website st)) name = Inl err"
  shows "dict_get (collected_data st) ''social_data'' =
           Some (JDict [(''domain'', JStr (domain (website st))), (''error'', JStr err),
                        (''platforms'', JDict [])])
    \<and> dict_get (reports (db st)) i = Some (report st)
    \<and> error_messages (report st) = []
    \<and> step_entry ''social_analysis'' (report st) =
         Some \<lparr>step = ''social_analysis'', step_status = ''failed'', progress = 0,
               message = ''Social media analysis failed: '' @ err,
               updated_at = Some (isoformat e (clock e ''updated_at:social_analysis''))\<rparr>"
proof -
  from assms(1) obtain r st0 st7 where r: "dict_get (reports w) i = Some r"
    and b: "begin_processing e i r w = Inr st0"
    and s: "run_stages e st0 = Inr st7"
    and c: "complete e st7 = Finished res st"
    by (rule try_body_finished)
  define s2 where "s2 = stage_seo e (stage_website e st0)"
  define s3 where "s3 = stage_social e s2"
  define s6 where "s6 = stage_ai e (stage_competitor e (stage_reputation e s3))"
  have c7: "stage_compilation e s6 = Inr st7"
    using s by (simp add: run_stages_def s6_def s3_def s2_def)
  have web: "website st = website s2"
    by (simp add: complete_finished(2)[OF c] stage_compilation_frame(2)[OF c7] s6_def s3_def
        stage_ai_frame stage_competitor_frame stage_reputation_frame stage_social_frame)
  have wd: "dict_get (collected_data st) ''website_data'' = dict_get (collected_data s2) ''website_data''"
    by (simp add: complete_finished(3)[OF c] stage_compilation_frame(3)[OF c7] s6_def s3_def
        stage_ai_frame stage_competitor_frame stage_reputation_frame stage_social_frame)
  have soc: "dict_get (collected_data st) ''social_data'' = dict_get (collected_data s3) ''social_data''"
    by (simp add: complete_finished(3)[OF c] stage_compilation_frame(3)[OF c7] s6_def
        stage_ai_frame stage_competitor_frame stage_reputation_frame)
  have ent: "step_entry ''social_analysis'' (report st) = step_entry ''social_analysis'' (report s3)"
    by (simp add: complete_finished(13)[OF c] stage_compilation_frame(14)[OF c7] s6_def
        stage_ai_frame stage_competitor_frame stage_reputation_frame)
  have ent1: "step_entry ''social_analysis'' (report s2) = step_entry ''social_analysis'' (report st0)"
    by (simp add: s2_def stage_seo_frame stage_website_frame)
  have ent0: "step_entry ''social_analysis'' (report s2) =
     Some \<lparr>step = ''social_analysis'', step_status = ''pending'', progress = 0,
           message = ''Analyzing social media presence...'', updated_at = None\<rparr>"
    unfolding ent1 by (simp add: step_entry_def begin_ok(6)[OF b] initial_social_entry)
  have a2: "company_name_arg e (collected_data s2) = Inr name"
    using assms(2) company_name_arg_cong[OF wd, of e] by simp
  have a3: "collect_social_data e (domain (website s2)) name = Inl err"
    using assms(3) web by simp
  have id: "report_id st7 = i"
    using run_stages_frame(1)[OF s] begin_ok(1)[OF b] by simp
  have stored: "dict_get (reports (db st)) i = Some (report st)"
    using complete_finished(14)[OF c] id by simp
  have errs: "error_messages (report st) = []"
    using complete_finished(5)[OF c] run_stages_frame(3)[OF s] begin_ok(5)[OF b] by simp
  have fb: "dict_get (collected_data st) ''social_data'' = Some (social_fallback (website st) err)"
    using stage_social_failure(1)[OF a2 a3] soc web by (simp add: s3_def)
  have entry: "step_entry ''social_analysis'' (report st) =
         Some \<lparr>step = ''social_analysis'', step_status = ''failed'', progress = 0,
               message = ''Social media analysis failed: '' @ err,
               updated_at = Some (isoformat e (clock e ''updated_at:social_analysis''))\<rparr>"
    using stage_social_failure(3)[OF a2 a3] ent ent0 by (simp add: s3_def)
  from fb stored errs entry show ?thesis
    by (simp add: social_fallback_def)
qed

theorem social_failure_fallback_witness:
  "\<exists>res st name. try_body social_down_env ''r1'' example_world = Finished res st
     \<and> company_name_arg social_down_env (collected_data st) = Inr name
     \<and> collect_social_data social_down_env (domain (website st)) name = Inl ''timeout''
     \<and> dict_get (collected_data st) ''social_data'' =
           Some (JDict [(''domain'', JStr (domain (website st))), (''error'', JStr ''timeout''),
                        (''platforms'', JDict [])])
     \<and> error_messages (report st) = []"
proof -
  from social_down_finishes obtain res st where
    f: "try_body social_down_env ''r1'' example_world = Finished res st" by blast
  from f obtain r st0 st7 where r: "dict_get (reports example_world) ''r1'' = Some r"
    and b: "begin_processing social_down_env ''r1'' r example_world = Inr st0"
    and s: "run_stages social_down_env st0 = Inr st7"
    and c: "complete social_down_env st7 = Finished res st"
    by (rule try_body_finished)
  have "\<exists>d. dict_get (collected_data st) ''website_data'' = Some (JDict d)"
    using s complete_finished(3)[OF c] stage_website_sets[of social_down_env st0]
    by (auto simp add: run_stages_def stage_compilation_frame stage_ai_frame stage_competitor_frame
        stage_reputation_frame stage_social_frame stage_seo_frame)
  then obtain name where n: "company_name_arg social_down_env (collected_data st) = Inr name"
    by (auto simp add: company_name_arg_def as_dict_def)
  have d: "collect_social_data social_down_env (domain (website st)) name = Inl ''timeout''"
    by (simp add: social_down_env_def)
  from social_failure_fallback[OF f n d] f n d show ?thesis by blast
qed

text \<open>
  The claim as stated fails: with the social collector raising, the run finishes as
  \<open>completed\<close> and the stored errors list has no entry at all, before and after.
\<close>

theorem social_errors_counterexample:
  "collect_social_data social_down_env ''example.com'' (JStr ''Example'') = Inl ''timeout''
   \<and> map_option error_messages (dict_get (reports example_world) ''r1'') = Some []
   \<and> map_option error_messages
        (dict_get (reports (snd (generate_marketing_report social_down_env 0 ''r1'' example_world))) ''r1'')
       = Some []
   \<and> map_option status
        (dict_get (reports (snd (generate_marketing_report social_down_env 0 ''r1'' example_world))) ''r1'')
       = Some Completed"
  by code_simp






end
